theory Spec2Isabelle
  imports Main "HOL-Library.AList" "HOL-Library.Char_ord" "HOL-Library.List_Lexorder"
begin

section \<open>The Notion importer of obsidian-importer (src/formats/notion.ts)\<close>

text \<open>
  The development embeds \<^verbatim>\<open>NotionImporter.import\<close>, \<^verbatim>\<open>processZips\<close> and
  \<^verbatim>\<open>isDatabaseCSV\<close> of \<^verbatim>\<open>src/formats/notion.ts\<close>. The functions the file
  imports from other modules (\<^verbatim>\<open>getNotionId\<close>, \<^verbatim>\<open>parseFileInfo\<close>,
  \<^verbatim>\<open>cleanDuplicates\<close>, \<^verbatim>\<open>assembleParentIds\<close>, \<^verbatim>\<open>readToMarkdown\<close>), the
  Obsidian API and the progress reporter are collaborators: the importer is a function of
  them, and every theorem about the importer holds for all of them.
\<close>

subsection \<open>Data\<close>

text \<open>A thrown JavaScript value; \<^verbatim>\<open>new Error(msg)\<close> is \<open>Error msg\<close>.\<close>

datatype error = Error string

text \<open>
  An entry of a zip archive (\<^verbatim>\<open>ZipEntryFile\<close>): the three fields the importer reads,
  and the bytes behind its \<^verbatim>\<open>read()\<close> method.
\<close>

record ZipEntryFile =
  filepath :: string
  name :: string
  extension :: string
  content :: string

text \<open>A picked zip file (\<^verbatim>\<open>PickedFile\<close>) is the sequence of entries that
  \<^verbatim>\<open>readZip\<close> and \<^verbatim>\<open>readZipFiles\<close> yield for it when it can be read.\<close>

type_synonym PickedFile = "ZipEntryFile list"

text \<open>
  Modelled from the spec: the declarations of \<^verbatim>\<open>NotionFileInfo\<close> and
  \<^verbatim>\<open>NotionAttachmentInfo\<close> are not in \<^verbatim>\<open>notion.ts\<close>. The importer itself reads
  \<^verbatim>\<open>title\<close>, \<^verbatim>\<open>targetParentFolder\<close> and \<^verbatim>\<open>nameWithExtension\<close>; the other
  fields follow the data model of the specification (identity, optional parent id, origin
  archive path, optional owning document), with the archive byte size that its duplicate
  policy compares and, for a document, the resolved chain of folder segments that duplicate
  resolution computes (empty until then).
\<close>

record NotionFileInfo =
  docId :: string
  title :: string
  parentId :: "string option"
  originPath :: string
  docSize :: nat
  folderSegments :: "string list"

record NotionAttachmentInfo =
  archivePath :: string
  nameWithExtension :: string
  ownerId :: "string option"
  attSize :: nat
  targetParentFolder :: string

text \<open>
  A \<^verbatim>\<open>Record<string, T>\<close> is an association list of its own properties, in
  the order of their insertion; of two pairs with the same key the first is the property.
  \<^verbatim>\<open>Object.keys\<close> lists each key once: first the keys that are array indices (the
  decimal numerals of the integers from 0 to 4294967294, without a leading zero) in
  ascending numeric order, then the other keys in insertion order. \<^verbatim>\<open>Object.values\<close>
  lists the value of each key in the same order.
\<close>

type_synonym 'v Record = "(string \<times> 'v) list"

definition isDigit :: "char \<Rightarrow> bool" where
  "isDigit c = (c \<in> set ''0123456789'')"

definition indexValue :: "string \<Rightarrow> nat" where
  "indexValue k = fold (\<lambda>c n. 10 * n + (of_char c - 48)) k 0"

definition isArrayIndex :: "string \<Rightarrow> bool" where
  "isArrayIndex k =
     (k \<noteq> [] \<and> length k \<le> 10 \<and> list_all isDigit k \<and> (k = ''0'' \<or> hd k \<noteq> CHR ''0'')
      \<and> indexValue k < 4294967295)"

definition insertionOrder :: "'v Record \<Rightarrow> string list" where
  "insertionOrder r = rev (remdups (rev (map fst r)))"

definition keys_of :: "'v Record \<Rightarrow> string list" where
  "keys_of r =
     sort_key indexValue (filter isArrayIndex (insertionOrder r))
       @ filter (\<lambda>k. \<not> isArrayIndex k) (insertionOrder r)"

definition values_of :: "'v Record \<Rightarrow> 'v list" where
  "values_of r = List.map_filter (map_of r) (keys_of r)"

text \<open>
  A lookup \<^verbatim>\<open>r[k]\<close> finds the own property \<open>k\<close>; without one it finds what the
  object inherits from \<^verbatim>\<open>Object.prototype\<close> under that name, a function or an object
  and so a truthy value with none of the fields of \<open>'v\<close>; else it is \<^verbatim>\<open>undefined\<close>.
\<close>

definition objectPrototypeKeys :: "string list" where
  "objectPrototypeKeys =
     [''constructor'', ''__defineGetter__'', ''__defineSetter__'', ''hasOwnProperty'',
      ''__lookupGetter__'', ''__lookupSetter__'', ''isPrototypeOf'', ''propertyIsEnumerable'',
      ''toString'', ''valueOf'', ''__proto__'', ''toLocaleString'']"

datatype 'v property = Own 'v | Inherited | Undefined

definition getProperty :: "'v Record \<Rightarrow> string \<Rightarrow> 'v property" where
  "getProperty r k =
     (case map_of r k of
        Some v \<Rightarrow> Own v
      | None \<Rightarrow> if k \<in> set objectPrototypeKeys then Inherited else Undefined)"

type_synonym Mappings = "NotionFileInfo Record \<times> NotionAttachmentInfo Record"

text \<open>What the importer calls on the progress reporter, the notice area and the vault.\<close>

datatype event =
    Notice string
  | ReportSkipped string
  | ReportProgress nat nat
  | ReportNoteSuccess string
  | ReportAttachmentSuccess string
  | ReportFailed string error
  | CreateFolders string
  | VaultCreate string string
  | ProcessFrontMatter string "(string \<times> string) list"
  | WriteBinary string string

text \<open>
  The collaborators. \<open>'w\<close> is the state of the vault. An operation that may throw
  returns its error (\<open>Some e\<close>, or \<open>Inl e\<close>) together with the state it leaves behind.
  \<^verbatim>\<open>parseFileInfo\<close> and \<^verbatim>\<open>cleanDuplicates\<close> mutate the two mappings in place, so they
  return them. \<^verbatim>\<open>cleanDuplicates\<close>, \<^verbatim>\<open>assembleParentIds\<close>, \<^verbatim>\<open>createFolders\<close>,
  the reporter and the reading of a zip are called outside every \<^verbatim>\<open>try\<close> block; in
  this record, and in the run \<open>import\<close> built on it, they return normally, which is
  the run the error model of the specification describes. The run in which they may throw
  is \<open>import_exn\<close> below, and \<open>import\<close> is that run when none of them throws.
  \<^verbatim>\<open>normalizePath\<close> is a function of its argument, and \<^verbatim>\<open>readToMarkdown\<close> only
  reads the mappings it is given.
\<close>

record 'w Collaborators =
  getNotionId :: "string \<Rightarrow> string option"
  parseFileInfo :: "ZipEntryFile \<Rightarrow> string \<Rightarrow> Mappings \<Rightarrow> error option \<times> Mappings"
  cleanDuplicates :: "'w \<Rightarrow> string \<Rightarrow> string \<Rightarrow> bool \<Rightarrow> Mappings \<Rightarrow> Mappings"
  assembleParentIds :: "NotionFileInfo \<Rightarrow> NotionFileInfo Record \<Rightarrow> string list"
  readToMarkdown :: "ZipEntryFile \<Rightarrow> string list \<Rightarrow> Mappings
     \<Rightarrow> error + (string \<times> (string \<times> string) list)"
  normalizePath :: "string \<Rightarrow> string"
  createFolders :: "string \<Rightarrow> 'w \<Rightarrow> 'w"
  vaultCreate :: "string \<Rightarrow> string \<Rightarrow> 'w \<Rightarrow> error option \<times> 'w"
  processFrontMatter :: "string \<Rightarrow> (string \<times> string) list \<Rightarrow> 'w \<Rightarrow> error option \<times> 'w"
  fileRead :: "ZipEntryFile \<Rightarrow> error + string"
  writeBinary :: "string \<Rightarrow> string \<Rightarrow> 'w \<Rightarrow> error option \<times> 'w"

text \<open>The fields of the importer object that \<^verbatim>\<open>import\<close> reads: the toggle, the picked
  files, the folder \<^verbatim>\<open>getOutputFolder()\<close> resolves to (\<open>None\<close> for \<^verbatim>\<open>null\<close>) and
  the vault's \<^verbatim>\<open>attachmentFolderPath\<close> setting.\<close>

record NotionImporter =
  parentsInSubfolders :: bool
  files :: "PickedFile list"
  outputFolder :: "string option"
  attachmentFolderConfig :: "string option"

text \<open>The state an import run works on: the vault, the calls made so far, the two
  mappings and the progress counter.\<close>

record 'w run =
  world :: 'w
  trace :: "event list"
  idsToFileInfo :: "NotionFileInfo Record"
  pathsToAttachmentInfo :: "NotionAttachmentInfo Record"
  current :: nat

subsection \<open>isDatabaseCSV and processZips\<close>

text \<open>JavaScript truthiness of a \<^verbatim>\<open>string | undefined\<close>: the empty string is falsy.\<close>

definition truthy :: "string option \<Rightarrow> bool" where
  "truthy r = (case r of None \<Rightarrow> False | Some s \<Rightarrow> s \<noteq> [])"

definition endsWith :: "string \<Rightarrow> string \<Rightarrow> bool" where
  "endsWith s suf = (length suf \<le> length s \<and> drop (length s - length suf) s = suf)"

definition isDatabaseCSV :: "'w Collaborators \<Rightarrow> string \<Rightarrow> bool" where
  "isDatabaseCSV d filename = (endsWith filename ''.csv'' \<and> truthy (getNotionId d filename))"

text \<open>The inner loop of \<^verbatim>\<open>processZips\<close> over the entries of one zip. A callback that
  throws ends the loop: nothing in \<^verbatim>\<open>processZips\<close> catches.\<close>

fun processEntries ::
  "'w Collaborators \<Rightarrow> (ZipEntryFile \<Rightarrow> 's \<Rightarrow> (error + unit) \<times> 's) \<Rightarrow> ZipEntryFile list
     \<Rightarrow> 's \<Rightarrow> (error + unit) \<times> 's" where
  "processEntries d callback [] s = (Inr (), s)"
| "processEntries d callback (file # rest) s =
     (if isDatabaseCSV d (filepath file) then processEntries d callback rest s
      else (case callback file s of
              (Inl e, s') \<Rightarrow> (Inl e, s')
            | (Inr u, s') \<Rightarrow> processEntries d callback rest s'))"

fun processZips ::
  "'w Collaborators \<Rightarrow> PickedFile list \<Rightarrow> (ZipEntryFile \<Rightarrow> 's \<Rightarrow> (error + unit) \<times> 's)
     \<Rightarrow> 's \<Rightarrow> (error + unit) \<times> 's" where
  "processZips d [] callback s = (Inr (), s)"
| "processZips d (zipFile # rest) callback s =
     (case processEntries d callback zipFile s of
        (Inl e, s') \<Rightarrow> (Inl e, s')
      | (Inr u, s') \<Rightarrow> processZips d rest callback s')"

text \<open>Calling a callback on each entry of a list in turn, up to the first throw.\<close>

fun invokeEach ::
  "(ZipEntryFile \<Rightarrow> 's \<Rightarrow> (error + unit) \<times> 's) \<Rightarrow> ZipEntryFile list \<Rightarrow> 's
     \<Rightarrow> (error + unit) \<times> 's" where
  "invokeEach callback [] s = (Inr (), s)"
| "invokeEach callback (file # rest) s =
     (case callback file s of
        (Inl e, s') \<Rightarrow> (Inl e, s')
      | (Inr u, s') \<Rightarrow> invokeEach callback rest s')"

text \<open>The entries of all picked zips that are not database exports, in archive order.\<close>

definition entriesToProcess :: "'w Collaborators \<Rightarrow> PickedFile list \<Rightarrow> ZipEntryFile list" where
  "entriesToProcess d zips = filter (\<lambda>file. \<not> isDatabaseCSV d (filepath file)) (concat zips)"

subsection \<open>The import run\<close>

definition report :: "event \<Rightarrow> 'w run \<Rightarrow> 'w run" where
  "report e s = s\<lparr>trace := trace s @ [e]\<rparr>"

definition initialRun :: "'w \<Rightarrow> 'w run" where
  "initialRun w =
     \<lparr>world = w, trace = [], idsToFileInfo = [], pathsToAttachmentInfo = [], current = 0\<rparr>"

text \<open>Lines 40 to 43: the target folder path, normalised, with a trailing slash.\<close>

definition targetFolderPathOf :: "'w Collaborators \<Rightarrow> string \<Rightarrow> string" where
  "targetFolderPathOf d folderPath =
     (let p = normalizePath d folderPath in if endsWith p ''/'' then p else p @ ''/'')"

text \<open>Lines 50 to 61, the callback of the first pass: \<^verbatim>\<open>parseFileInfo\<close> inside a
  \<^verbatim>\<open>try\<close> whose \<^verbatim>\<open>catch\<close> reports the entry as skipped.\<close>

definition scanEntry ::
  "'w Collaborators \<Rightarrow> string \<Rightarrow> ZipEntryFile \<Rightarrow> 'w run \<Rightarrow> (error + unit) \<times> 'w run" where
  "scanEntry d attachmentFolderPath file s =
     (case parseFileInfo d file attachmentFolderPath (idsToFileInfo s, pathsToAttachmentInfo s) of
        (None, (ids, atts)) \<Rightarrow>
          (Inr (), s\<lparr>idsToFileInfo := ids, pathsToAttachmentInfo := atts\<rparr>)
      | (Some e, (ids, atts)) \<Rightarrow>
          (Inr (), report (ReportSkipped (filepath file))
                     (s\<lparr>idsToFileInfo := ids, pathsToAttachmentInfo := atts\<rparr>)))"

text \<open>Lines 121 to 124: the destination path of a document.\<close>

definition documentPath ::
  "'w Collaborators \<Rightarrow> string \<Rightarrow> NotionFileInfo Record \<Rightarrow> NotionFileInfo \<Rightarrow> string" where
  "documentPath d targetFolderPath ids fileInfo =
     targetFolderPath @ concat (assembleParentIds d fileInfo ids) @ title fileInfo @ ''.md''"

text \<open>Lines 102 to 138, the \<^verbatim>\<open>html\<close> branch of the second pass. The lookup
  \<^verbatim>\<open>idsToFileInfo[id]\<close> is by the id that \<^verbatim>\<open>getNotionId\<close> extracts, a run
  of hexadecimal digits (section 4.1 of the specification), which names no property of
  \<^verbatim>\<open>Object.prototype\<close>: the lookup is that of the own properties.\<close>

definition convertDocument ::
  "'w Collaborators \<Rightarrow> string \<Rightarrow> string list \<Rightarrow> ZipEntryFile \<Rightarrow> 'w run
     \<Rightarrow> (error + unit) \<times> 'w run" where
  "convertDocument d targetFolderPath attachmentPaths file s =
     (case getNotionId d (name file) of
        None \<Rightarrow> (Inl (Error (''ids not found for '' @ filepath file)), s)
      | Some i \<Rightarrow>
          if i = [] then (Inl (Error (''ids not found for '' @ filepath file)), s)
          else (case map_of (idsToFileInfo s) i of
            None \<Rightarrow> (Inl (Error (''file info not found for '' @ filepath file)), s)
          | Some fileInfo \<Rightarrow>
              (case readToMarkdown d file attachmentPaths
                      (idsToFileInfo s, pathsToAttachmentInfo s) of
                 Inl e \<Rightarrow> (Inl e, s)
               | Inr (markdownBody, properties) \<Rightarrow>
                   (let path = documentPath d targetFolderPath (idsToFileInfo s) fileInfo;
                        s1 = report (VaultCreate path markdownBody) s
                    in case vaultCreate d path markdownBody (world s1) of
                         (Some e, w) \<Rightarrow> (Inl e, s1\<lparr>world := w\<rparr>)
                       | (None, w) \<Rightarrow>
                           if properties \<noteq> [] then
                             (let s2 = report (ProcessFrontMatter path properties)
                                         (s1\<lparr>world := w\<rparr>)
                              in case processFrontMatter d path properties (world s2) of
                                   (Some e, w') \<Rightarrow> (Inl e, s2\<lparr>world := w'\<rparr>)
                                 | (None, w') \<Rightarrow>
                                     (Inr (), report (ReportNoteSuccess (filepath file))
                                                (s2\<lparr>world := w'\<rparr>)))
                           else (Inr (), report (ReportNoteSuccess (filepath file))
                                           (s1\<lparr>world := w\<rparr>))))))"

text \<open>Lines 139 to 155, the \<^verbatim>\<open>else\<close> branch: the entry is copied as an attachment.
  The lookup \<^verbatim>\<open>pathsToAttachmentInfo[file.filepath]\<close> is by the filepath, which may
  be any string. A value inherited from \<^verbatim>\<open>Object.prototype\<close> passes the test of line
  141, and the template of line 147 turns its two missing fields into the text
  \<^verbatim>\<open>undefinedundefined\<close>.\<close>

definition attachmentPath :: "'w Collaborators \<Rightarrow> NotionAttachmentInfo \<Rightarrow> string" where
  "attachmentPath d attachmentInfo =
     normalizePath d (targetParentFolder attachmentInfo @ nameWithExtension attachmentInfo)"

definition attachmentTarget ::
  "'w Collaborators \<Rightarrow> NotionAttachmentInfo property \<Rightarrow> string option" where
  "attachmentTarget d found =
     (case found of
        Undefined \<Rightarrow> None
      | Own attachmentInfo \<Rightarrow> Some (attachmentPath d attachmentInfo)
      | Inherited \<Rightarrow> Some (normalizePath d ''undefinedundefined''))"

definition copyAttachment ::
  "'w Collaborators \<Rightarrow> ZipEntryFile \<Rightarrow> 'w run \<Rightarrow> (error + unit) \<times> 'w run" where
  "copyAttachment d file s =
     (case attachmentTarget d (getProperty (pathsToAttachmentInfo s) (filepath file)) of
        None \<Rightarrow> (Inl (Error (''attachment info not found for '' @ filepath file)), s)
      | Some path \<Rightarrow>
          (case fileRead d file of
             Inl e \<Rightarrow> (Inl e, s)
           | Inr data \<Rightarrow>
               (let s1 = report (WriteBinary path data) s
                in case writeBinary d path data (world s1) of
                     (Some e, w) \<Rightarrow> (Inl e, s1\<lparr>world := w\<rparr>)
                   | (None, w) \<Rightarrow>
                       (Inr (), report (ReportAttachmentSuccess (filepath file))
                                  (s1\<lparr>world := w\<rparr>)))))"

text \<open>The body of the \<^verbatim>\<open>try\<close> block of the second pass.\<close>

definition tryEntry ::
  "'w Collaborators \<Rightarrow> string \<Rightarrow> string list \<Rightarrow> ZipEntryFile \<Rightarrow> 'w run
     \<Rightarrow> (error + unit) \<times> 'w run" where
  "tryEntry d targetFolderPath attachmentPaths file s =
     (if extension file = ''html'' then convertDocument d targetFolderPath attachmentPaths file s
      else copyAttachment d file s)"

text \<open>Lines 97 to 160, the callback of the second pass.\<close>

definition importEntry ::
  "'w Collaborators \<Rightarrow> string \<Rightarrow> nat \<Rightarrow> string list \<Rightarrow> ZipEntryFile \<Rightarrow> 'w run
     \<Rightarrow> (error + unit) \<times> 'w run" where
  "importEntry d targetFolderPath total' attachmentPaths file s =
     (let s1 = s\<lparr>current := current s + 1\<rparr>;
          s2 = report (ReportProgress (current s1) total') s1
      in case tryEntry d targetFolderPath attachmentPaths file s2 of
           (Inr u, s3) \<Rightarrow> (Inr (), s3)
         | (Inl e, s3) \<Rightarrow> (Inr (), report (ReportFailed (filepath file) e) s3))"

text \<open>Lines 76 to 88: the folder paths, collected in a \<^verbatim>\<open>Set\<close> that starts with the
  target folder; a \<^verbatim>\<open>Set\<close> iterates in the order of first insertion.\<close>

definition documentFolder ::
  "'w Collaborators \<Rightarrow> string \<Rightarrow> NotionFileInfo Record \<Rightarrow> NotionFileInfo \<Rightarrow> string" where
  "documentFolder d targetFolderPath ids fileInfo =
     targetFolderPath @ concat (assembleParentIds d fileInfo ids)"

definition allFolderPaths ::
  "'w Collaborators \<Rightarrow> string \<Rightarrow> NotionFileInfo Record \<Rightarrow> NotionAttachmentInfo Record
     \<Rightarrow> string list" where
  "allFolderPaths d targetFolderPath ids atts =
     map (documentFolder d targetFolderPath ids) (values_of ids)
       @ map targetParentFolder (values_of atts)"

definition setAdd :: "string \<Rightarrow> string list \<Rightarrow> string list" where
  "setAdd p acc = (if p \<in> set acc then acc else acc @ [p])"

definition flatFolderPaths ::
  "'w Collaborators \<Rightarrow> string \<Rightarrow> NotionFileInfo Record \<Rightarrow> NotionAttachmentInfo Record
     \<Rightarrow> string list" where
  "flatFolderPaths d targetFolderPath ids atts =
     fold setAdd (allFolderPaths d targetFolderPath ids atts) [targetFolderPath]"

text \<open>Lines 89 to 91.\<close>

definition createFolder :: "'w Collaborators \<Rightarrow> string \<Rightarrow> 'w run \<Rightarrow> 'w run" where
  "createFolder d path s = (report (CreateFolders path) s)\<lparr>world := createFolders d path (world s)\<rparr>"

text \<open>Lines 45 to 61: the first pass over the archives.\<close>

definition scan :: "'w Collaborators \<Rightarrow> NotionImporter \<Rightarrow> 'w \<Rightarrow> (error + unit) \<times> 'w run" where
  "scan d this w =
     processZips d (files this)
       (scanEntry d (case attachmentFolderConfig this of None \<Rightarrow> [] | Some p \<Rightarrow> p))
       (initialRun w)"

text \<open>Lines 63 to 65.\<close>

definition totalOf :: "'w run \<Rightarrow> nat" where
  "totalOf s = length (keys_of (idsToFileInfo s)) + length (keys_of (pathsToAttachmentInfo s))"

text \<open>Lines 67 to 91: duplicate resolution, then the creation of every folder.\<close>

definition plan :: "'w Collaborators \<Rightarrow> NotionImporter \<Rightarrow> string \<Rightarrow> 'w run \<Rightarrow> 'w run" where
  "plan d this targetFolderPath s =
     (case cleanDuplicates d (world s)
             (case attachmentFolderConfig this of None \<Rightarrow> [] | Some p \<Rightarrow> p)
             targetFolderPath (parentsInSubfolders this)
             (idsToFileInfo s, pathsToAttachmentInfo s) of
        (ids, atts) \<Rightarrow>
          fold (createFolder d) (flatFolderPaths d targetFolderPath ids atts)
            (s\<lparr>idsToFileInfo := ids, pathsToAttachmentInfo := atts\<rparr>))"

text \<open>Lines 93 to 160: the second pass.\<close>

definition convert ::
  "'w Collaborators \<Rightarrow> NotionImporter \<Rightarrow> string \<Rightarrow> nat \<Rightarrow> 'w run \<Rightarrow> (error + unit) \<times> 'w run" where
  "convert d this targetFolderPath total' s =
     processZips d (files this)
       (importEntry d targetFolderPath total' (keys_of (pathsToAttachmentInfo s)))
       (s\<lparr>current := 0\<rparr>)"

text \<open>\<^verbatim>\<open>NotionImporter.import\<close>, lines 27 to 161, when the calls outside the try
  blocks return normally.\<close>

definition import ::
  "'w Collaborators \<Rightarrow> NotionImporter \<Rightarrow> 'w \<Rightarrow> (error + unit) \<times> 'w run" where
  "import d this w =
     (if files this = [] then
        (Inr (), report (Notice ''Please pick at least one file to import.'') (initialRun w))
      else (case outputFolder this of
        None \<Rightarrow>
          (Inr (), report (Notice ''Please select a location to export to.'') (initialRun w))
      | Some folderPath \<Rightarrow>
          (case scan d this w of
             (Inl e, s1) \<Rightarrow> (Inl e, s1)
           | (Inr u, s1) \<Rightarrow>
               convert d this (targetFolderPathOf d folderPath) (totalOf s1)
                 (plan d this (targetFolderPathOf d folderPath) s1))))"

subsection \<open>The import run with the exceptions of the calls outside the try blocks\<close>

text \<open>
  In \<open>import\<close> above, the calls that \<^verbatim>\<open>notion.ts\<close> makes outside its two
  \<^verbatim>\<open>try\<close> blocks return normally. No \<^verbatim>\<open>catch\<close> encloses them: when one
  of them throws, or the promise it returns is rejected, the exception leaves
  \<^verbatim>\<open>import\<close>. The record below gives each of these calls a result that may be an
  exception: \<^verbatim>\<open>getOutputFolder\<close> (line 34), the reading of a picked zip by
  \<^verbatim>\<open>readZip\<close> and \<^verbatim>\<open>readZipFiles\<close> (lines 168 and 169),
  \<^verbatim>\<open>cleanDuplicates\<close> (line 67), \<^verbatim>\<open>assembleParentIds\<close> (line 79, and line
  121 inside the \<^verbatim>\<open>try\<close> block), \<^verbatim>\<open>createFolders\<close> (line 90) and the
  methods of the reporter (lines 60, 99, 136, 154 and 158); a call of the reporter is given
  as the event it would record. A picked file is read in the same way in both passes. The
  functions of the platform that only compute on their arguments
  (\<^verbatim>\<open>normalizePath\<close>, \<^verbatim>\<open>vault.getConfig\<close>) and the constructor of a
  \<^verbatim>\<open>Notice\<close> return normally here too.
\<close>

record 'w Uncaught =
  getOutputFolder :: "error + string option"
  readZip :: "PickedFile \<Rightarrow> error + ZipEntryFile list"
  cleanDuplicates_exn :: "'w \<Rightarrow> string \<Rightarrow> string \<Rightarrow> bool \<Rightarrow> Mappings \<Rightarrow> error option \<times> Mappings"
  assembleParentIds_exn :: "NotionFileInfo \<Rightarrow> NotionFileInfo Record \<Rightarrow> error + string list"
  createFolders_exn :: "string \<Rightarrow> 'w \<Rightarrow> error option \<times> 'w"
  reporter :: "event \<Rightarrow> error option"

text \<open>A call of the reporter: the trace records it, and it may throw.\<close>

definition reportTo :: "'w Uncaught \<Rightarrow> event \<Rightarrow> 'w run \<Rightarrow> (error + unit) \<times> 'w run" where
  "reportTo x e s =
     (case reporter x e of None \<Rightarrow> (Inr (), report e s) | Some err \<Rightarrow> (Inl err, report e s))"













subsection \<open>The hierarchy assembler\<close>

text \<open>
  Modelled from the spec: \<^verbatim>\<open>assembleParentIds\<close> lives in \<^verbatim>\<open>notion/notion-utils\<close>,
  which is not among the sources. Section 4.4 of the specification: walk the parent-id
  pointers; at each step look the parent up; if it is found, prepend its folder segment
  (title and path separator) and continue from its parent; if the parent id is absent or not
  found, stop. A set of visited ids is kept during the walk, which starts at the document;
  a parent id that was already visited stops the walk with the prefix assembled so far.
  The walk carries with each segment the id that contributed it.
\<close>

function ancestorWalk ::
  "NotionFileInfo Record \<Rightarrow> string list \<Rightarrow> string option \<Rightarrow> (string \<times> string) list
     \<Rightarrow> (string \<times> string) list" where
  "ancestorWalk allDocuments visited None acc = acc"
| "ancestorWalk allDocuments visited (Some p) acc =
     (if p \<in> set visited then acc
      else (case map_of allDocuments p of
              None \<Rightarrow> acc
            | Some parent \<Rightarrow>
                ancestorWalk allDocuments (p # visited) (parentId parent)
                  ((p, title parent @ ''/'') # acc)))"
  by pat_completeness auto

termination
proof (relation "measure (\<lambda>(allDocuments, visited, p, acc).
                    card (fst ` set allDocuments - set visited))")
  show "wf (measure (\<lambda>(allDocuments, visited, p, acc).
                    card (fst ` set allDocuments - set visited)))"
    by simp
next
  fix allDocuments :: "NotionFileInfo Record" and visited p acc x2
  assume fresh: "p \<notin> set visited" and found: "map_of allDocuments p = Some x2"
  have "p \<in> fst ` set allDocuments"
    using found by (metis map_of_eq_None_iff option.distinct(1))
  then have "p \<in> fst ` set allDocuments - set visited"
    using fresh by simp
  moreover have "fst ` set allDocuments - set (p # visited)
               = (fst ` set allDocuments - set visited) - {p}"
    by auto
  moreover have "finite (fst ` set allDocuments - set visited)"
    by simp
  ultimately have "card (fst ` set allDocuments - set (p # visited))
                 < card (fst ` set allDocuments - set visited)"
    using card_Diff1_less [of "fst ` set allDocuments - set visited" p] by presburger
  then show "((allDocuments, p # visited, parentId x2, (p, title x2 @ ''/'') # acc),
              (allDocuments, visited, Some p, acc))
             \<in> measure (\<lambda>(allDocuments, visited, p, acc).
                    card (fst ` set allDocuments - set visited))"
    by simp
qed

text \<open>Modelled from the spec: \<^verbatim>\<open>assembleParentIds(document, allDocuments)\<close> of section
  4.4, the walk from the parent of the document with the document's own id visited; the
  result is the sequence of the segments, from the root to the immediate parent.\<close>

definition ancestorChain :: "NotionFileInfo \<Rightarrow> NotionFileInfo Record \<Rightarrow> (string \<times> string) list" where
  "ancestorChain document allDocuments =
     ancestorWalk allDocuments [docId document] (parentId document) []"

definition assembleParentIds_spec :: "NotionFileInfo \<Rightarrow> NotionFileInfo Record \<Rightarrow> string list" where
  "assembleParentIds_spec document allDocuments = map snd (ancestorChain document allDocuments)"

text \<open>Reading a chain: a pair of the chain holds the folder segment of the document with
  that id; the parent pointer of an id; a list of ids that follows the parent pointers
  upwards from a pointer.\<close>

definition segmentOf :: "NotionFileInfo Record \<Rightarrow> string \<times> string \<Rightarrow> bool" where
  "segmentOf allDocuments p =
     (map_option (\<lambda>parent. title parent @ ''/'') (map_of allDocuments (fst p)) = Some (snd p))"

definition parentOf :: "NotionFileInfo Record \<Rightarrow> string \<Rightarrow> string option" where
  "parentOf allDocuments i =
     (case map_of allDocuments i of None \<Rightarrow> None | Some d \<Rightarrow> parentId d)"

fun followsParents :: "NotionFileInfo Record \<Rightarrow> string option \<Rightarrow> string list \<Rightarrow> bool" where
  "followsParents allDocuments p [] = True"
| "followsParents allDocuments p (i # rest) =
     (p = Some i \<and> followsParents allDocuments (parentOf allDocuments i) rest)"

subsection \<open>The duplicate resolver\<close>

text \<open>
  Modelled from the spec: \<^verbatim>\<open>cleanDuplicates\<close> lives in \<^verbatim>\<open>notion/clean-duplicates\<close>,
  which is not among the sources. Section 4.3 of the specification leaves three notions
  open, and they are parameters here: the normalisation that gives an id its canonical
  identity, the equivalence of display names (equality of a key) and the attachment
  subfolder convention.
\<close>

record DuplicatePolicy =
  canonicalId :: "string \<Rightarrow> string"
  displayKey :: "string \<Rightarrow> string"
  attachmentSubfolder :: "string \<Rightarrow> string"

text \<open>
  Modelled from the spec: the entry of larger archive byte size is the more complete one;
  on equal sizes the smaller key wins (the design notes ask for a tie-break that is
  deterministic by id).
\<close>

definition moreComplete :: "nat \<Rightarrow> string \<Rightarrow> nat \<Rightarrow> string \<Rightarrow> bool" where
  "moreComplete n k n' k' = (n' < n \<or> (n' = n \<and> k \<le> k'))"

text \<open>Modelled from the spec: two documents are duplicates when their identities are equal
  after normalisation; a document is retained when it is the most complete of its
  duplicates.\<close>

definition sameDocument :: "DuplicatePolicy \<Rightarrow> string \<Rightarrow> string \<Rightarrow> bool" where
  "sameDocument pol j k = (canonicalId pol j = canonicalId pol k)"

definition retainedDocument ::
  "DuplicatePolicy \<Rightarrow> NotionFileInfo Record \<Rightarrow> string \<times> NotionFileInfo \<Rightarrow> bool" where
  "retainedDocument pol ids kv =
     list_all (\<lambda>jw. if sameDocument pol (fst jw) (fst kv)
                     then moreComplete (docSize (snd kv)) (fst kv) (docSize (snd jw)) (fst jw)
                     else True) ids"

text \<open>Modelled from the spec: the identity a reference is rewritten to, namely the retained
  duplicate of the document it names; a reference to no document of the mapping stays.\<close>

definition retainedId :: "DuplicatePolicy \<Rightarrow> NotionFileInfo Record \<Rightarrow> string \<Rightarrow> string" where
  "retainedId pol ids p =
     (case find (\<lambda>kv. sameDocument pol (fst kv) p \<and> retainedDocument pol ids kv) ids of
        None \<Rightarrow> p
      | Some kv \<Rightarrow> fst kv)"

text \<open>Modelled from the spec: the resolution of the documents (section 4.3): the retained
  entries stay, and each parent-id pointer is rewritten to the retained identity.\<close>

definition resolveDocuments :: "DuplicatePolicy \<Rightarrow> NotionFileInfo Record \<Rightarrow> NotionFileInfo Record" where
  "resolveDocuments pol ids =
     map (\<lambda>kv. (fst kv, (snd kv)\<lparr>parentId := map_option (retainedId pol ids) (parentId (snd kv))\<rparr>))
       (filter (retainedDocument pol ids) ids)"

text \<open>Modelled from the spec: the folder path contribution of a retained document under
  the layout (sections 4.3 and 4.5): the segments of its ancestors; when parents are saved in
  subfolders the document lies in a folder of its own, beside its children and attachments,
  and its own segment follows.\<close>

definition folderContribution :: "bool \<Rightarrow> NotionFileInfo Record \<Rightarrow> NotionFileInfo \<Rightarrow> string list" where
  "folderContribution inSubfolders ids document =
     assembleParentIds_spec document ids
       @ (if inSubfolders then [title document @ ''/''] else [])"

text \<open>Modelled from the spec: every document of a mapping with its folder path contribution
  stored in it.\<close>

definition placeDocuments :: "bool \<Rightarrow> NotionFileInfo Record \<Rightarrow> NotionFileInfo Record" where
  "placeDocuments inSubfolders ids =
     map (\<lambda>kv. (fst kv,
            (snd kv)\<lparr>folderSegments := folderContribution inSubfolders ids (snd kv)\<rparr>)) ids"

text \<open>Modelled from the spec: the pass over the documents (section 4.3): resolution of the
  duplicates, then the folder path contribution of every retained document.\<close>

definition cleanDocuments ::
  "DuplicatePolicy \<Rightarrow> bool \<Rightarrow> NotionFileInfo Record \<Rightarrow> NotionFileInfo Record" where
  "cleanDocuments pol inSubfolders ids = placeDocuments inSubfolders (resolveDocuments pol ids)"

text \<open>Modelled from the spec: two attachments are duplicates when they are referenced from
  the same logical owning document and have equivalent display names.\<close>

definition sameAttachment ::
  "DuplicatePolicy \<Rightarrow> NotionAttachmentInfo \<Rightarrow> NotionAttachmentInfo \<Rightarrow> bool" where
  "sameAttachment pol a b =
     (map_option (canonicalId pol) (ownerId a) = map_option (canonicalId pol) (ownerId b)
      \<and> displayKey pol (nameWithExtension a) = displayKey pol (nameWithExtension b))"

definition retainedAttachment ::
  "DuplicatePolicy \<Rightarrow> NotionAttachmentInfo Record \<Rightarrow> string \<times> NotionAttachmentInfo \<Rightarrow> bool" where
  "retainedAttachment pol atts kv =
     list_all (\<lambda>jw. if sameAttachment pol (snd jw) (snd kv)
                     then moreComplete (attSize (snd kv)) (fst kv) (attSize (snd jw)) (fst jw)
                     else True) atts"

text \<open>Modelled from the spec: the folder of an attachment is the folder of its owning
  document, as resolved, when parents are saved in subfolders, else the target root,
  followed by the attachment subfolder (sections 4.3 and 4.5).\<close>

definition attachmentFolder ::
  "DuplicatePolicy \<Rightarrow> string \<Rightarrow> string \<Rightarrow> bool \<Rightarrow> NotionFileInfo Record
     \<Rightarrow> NotionAttachmentInfo \<Rightarrow> string" where
  "attachmentFolder pol attachmentFolderPath targetFolderPath inSubfolders ids a =
     (if inSubfolders then
        (case ownerId a of
           None \<Rightarrow> targetFolderPath
         | Some ow \<Rightarrow>
             (case map_of ids ow of
                None \<Rightarrow> targetFolderPath
              | Some owner \<Rightarrow> targetFolderPath @ concat (folderSegments owner)))
      else targetFolderPath)
     @ attachmentSubfolder pol attachmentFolderPath"

text \<open>Modelled from the spec: the resolution of the attachments (section 4.3): the retained
  entries stay, the owner of each is rewritten to the retained identity, and its folder is
  computed from the resolved documents.\<close>

definition cleanAttachments ::
  "DuplicatePolicy \<Rightarrow> string \<Rightarrow> string \<Rightarrow> bool \<Rightarrow> NotionFileInfo Record \<Rightarrow> NotionFileInfo Record
     \<Rightarrow> NotionAttachmentInfo Record \<Rightarrow> NotionAttachmentInfo Record" where
  "cleanAttachments pol attachmentFolderPath targetFolderPath inSubfolders ids ids' atts =
     map (\<lambda>kv. (fst kv,
            (snd kv)\<lparr>ownerId := map_option (retainedId pol ids) (ownerId (snd kv)),
                     targetParentFolder :=
                       attachmentFolder pol attachmentFolderPath targetFolderPath inSubfolders ids'
                         ((snd kv)\<lparr>ownerId := map_option (retainedId pol ids) (ownerId (snd kv))\<rparr>)\<rparr>))
       (filter (retainedAttachment pol atts) atts)"

text \<open>Modelled from the spec: \<^verbatim>\<open>cleanDuplicates\<close> (section 4.3) on the two mappings,
  which it mutates in place and which are returned here: the duplicates are resolved, the
  references rewritten, and the folder of every retained document and attachment computed
  from the resolved documents under the layout.\<close>

definition cleanDuplicates_spec ::
  "DuplicatePolicy \<Rightarrow> string \<Rightarrow> string \<Rightarrow> bool \<Rightarrow> Mappings \<Rightarrow> Mappings" where
  "cleanDuplicates_spec pol attachmentFolderPath targetFolderPath inSubfolders m =
     (cleanDocuments pol inSubfolders (fst m),
      cleanAttachments pol attachmentFolderPath targetFolderPath inSubfolders
        (fst m) (cleanDocuments pol inSubfolders (fst m)) (snd m))"

text \<open>Modelled from the spec: the destination path of a document below the target root
  (section 4.5): its folder segments, joined, its title and the extension.\<close>

definition plannedPath :: "NotionFileInfo \<Rightarrow> string" where
  "plannedPath document = concat (folderSegments document) @ title document @ ''.md''"

subsection \<open>An instance of the collaborators\<close>

text \<open>
  A small instance on which the importer can be run, for the examples that follow the
  theorems; it is not the code of the repository. Ids are four hexadecimal digits at the end
  of a name, before its extension; the parent of an entry is the document its enclosing
  folder is named after; documents are keyed by id and attachments by filepath; the
  conversion throws on an empty body; the vault is the list of the paths that exist in it,
  and creating a file that exists fails. Duplicates are resolved as the specification
  describes, and \<^verbatim>\<open>assembleParentIds\<close> returns the chain of folder segments that
  the resolution stored in the document.
\<close>

definition isHexDigit :: "char \<Rightarrow> bool" where
  "isHexDigit c = (c \<in> set ''0123456789abcdef'')"

definition stripExtension :: "string \<Rightarrow> string" where
  "stripExtension n =
     (if CHR ''.'' \<in> set n then rev (tl (dropWhile (\<lambda>c. c \<noteq> CHR ''.'') (rev n))) else n)"

definition dirname :: "string \<Rightarrow> string" where
  "dirname p =
     (if CHR ''/'' \<in> set p then rev (tl (dropWhile (\<lambda>c. c \<noteq> CHR ''/'') (rev p))) else [])"

definition sample_getNotionId :: "string \<Rightarrow> string option" where
  "sample_getNotionId filename =
     (let stem = stripExtension filename; i = drop (length stem - 4) stem
      in if 4 \<le> length stem \<and> list_all isHexDigit i then Some i else None)"

definition sample_parseFileInfo ::
  "ZipEntryFile \<Rightarrow> string \<Rightarrow> Mappings \<Rightarrow> error option \<times> Mappings" where
  "sample_parseFileInfo file attachmentFolderPath m =
     (if extension file = ''html'' then
        (case sample_getNotionId (name file) of
           None \<Rightarrow> (Some (Error (''no id in '' @ name file)), m)
         | Some i \<Rightarrow>
             (None,
              (AList.update i
                 \<lparr>docId = i,
                  title = take (length (stripExtension (name file)) - 5) (name file),
                  parentId = sample_getNotionId (dirname (filepath file)),
                  originPath = filepath file,
                  docSize = length (content file),
                  folderSegments = []\<rparr> (fst m),
               snd m)))
      else
        (None,
         (fst m,
          AList.update (filepath file)
            \<lparr>archivePath = filepath file,
             nameWithExtension = name file,
             ownerId = sample_getNotionId (dirname (filepath file)),
             attSize = length (content file),
             targetParentFolder = []\<rparr> (snd m))))"

definition samplePolicy :: DuplicatePolicy where
  "samplePolicy =
     \<lparr>canonicalId = take 4,
      displayKey = (\<lambda>n. n),
      attachmentSubfolder = (\<lambda>p. if p = [] then [] else p @ ''/'')\<rparr>"

definition sample_readToMarkdown ::
  "ZipEntryFile \<Rightarrow> string list \<Rightarrow> Mappings \<Rightarrow> error + (string \<times> (string \<times> string) list)" where
  "sample_readToMarkdown file attachmentPaths m =
     (if content file = [] then Inl (Error ''empty document'') else Inr (content file, []))"

definition sample_normalizePath :: "string \<Rightarrow> string" where
  "sample_normalizePath p = (if p \<noteq> [] \<and> last p = CHR ''/'' then butlast p else p)"

definition sample_vaultCreate :: "string \<Rightarrow> string \<Rightarrow> string list \<Rightarrow> error option \<times> string list" where
  "sample_vaultCreate path body w =
     (if path \<in> set w then (Some (Error ''File already exists.''), w) else (None, w @ [path]))"

definition sampleCollaborators :: "string list Collaborators" where
  "sampleCollaborators =
     \<lparr>getNotionId = sample_getNotionId,
      parseFileInfo = sample_parseFileInfo,
      cleanDuplicates = (\<lambda>w. cleanDuplicates_spec samplePolicy),
      assembleParentIds = (\<lambda>fileInfo ids. folderSegments fileInfo),
      readToMarkdown = sample_readToMarkdown,
      normalizePath = sample_normalizePath,
      createFolders = setAdd,
      vaultCreate = sample_vaultCreate,
      processFrontMatter = (\<lambda>path properties w. (None, w)),
      fileRead = (\<lambda>file. Inr (content file)),
      writeBinary = (\<lambda>path data w. (None, setAdd path w))\<rparr>"

text \<open>Entries of a small export: a page, its sub-page, a picture, the CSV export of a
  database and a CSV file that is an ordinary attachment.\<close>

definition sample_root :: ZipEntryFile where
  "sample_root =
     \<lparr>filepath = ''Root 0a01.html'', name = ''Root 0a01.html'', extension = ''html'',
      content = ''r''\<rparr>"

definition sample_child :: ZipEntryFile where
  "sample_child =
     \<lparr>filepath = ''Root 0a01/Child 0a02.html'', name = ''Child 0a02.html'',
      extension = ''html'', content = ''c''\<rparr>"

definition sample_picture :: ZipEntryFile where
  "sample_picture =
     \<lparr>filepath = ''Root 0a01/pic.png'', name = ''pic.png'', extension = ''png'',
      content = ''png''\<rparr>"

definition sample_database :: ZipEntryFile where
  "sample_database =
     \<lparr>filepath = ''Root 0a01/table 0a03.csv'', name = ''table 0a03.csv'', extension = ''csv'',
      content = ''a,b''\<rparr>"

definition sample_sheet :: ZipEntryFile where
  "sample_sheet =
     \<lparr>filepath = ''Root 0a01/prices.csv'', name = ''prices.csv'', extension = ''csv'',
      content = ''a,b''\<rparr>"

text \<open>A page without content, on which the sample conversion throws.\<close>

definition sample_blank :: ZipEntryFile where
  "sample_blank =
     \<lparr>filepath = ''Blank 0a04.html'', name = ''Blank 0a04.html'', extension = ''html'',
      content = []\<rparr>"

text \<open>An importer whose output folder is \<^verbatim>\<open>Notion\<close>, with parents beside their
  children.\<close>

definition sample_importer :: "PickedFile list \<Rightarrow> NotionImporter" where
  "sample_importer zips =
     \<lparr>parentsInSubfolders = False, files = zips, outputFolder = Some ''Notion'',
      attachmentFolderConfig = None\<rparr>"

text \<open>A page whose name carries no id.\<close>

definition sample_index :: ZipEntryFile where
  "sample_index =
     \<lparr>filepath = ''index.html'', name = ''index.html'', extension = ''html'',
      content = ''x''\<rparr>"

definition sample_pictureInfo :: NotionAttachmentInfo where
  "sample_pictureInfo =
     \<lparr>archivePath = ''Root 0a01/pic.png'', nameWithExtension = ''pic.png'',
      ownerId = Some ''0a01'', attSize = 3, targetParentFolder = ''Notion/''\<rparr>"

text \<open>An entry without extension whose filepath names a property of
  \<^verbatim>\<open>Object.prototype\<close>.\<close>

definition sample_constructor :: ZipEntryFile where
  "sample_constructor =
     \<lparr>filepath = ''constructor'', name = ''constructor'', extension = [], content = ''x''\<rparr>"

text \<open>The page, as the first pass records it.\<close>

definition sample_rootInfo :: NotionFileInfo where
  "sample_rootInfo =
     \<lparr>docId = ''0a01'', title = ''Root'', parentId = None, originPath = ''Root 0a01.html'',
      docSize = 1, folderSegments = []\<rparr>"

text \<open>Three states of a run on an empty vault: before the scan, with the picture in the
  attachment mapping, and with the page in the document mapping.\<close>

definition sample_start :: "string list run" where
  "sample_start = initialRun []"

definition sample_scanned :: "string list run" where
  "sample_scanned =
     (initialRun [])\<lparr>pathsToAttachmentInfo := [(''Root 0a01/pic.png'', sample_pictureInfo)]\<rparr>"

definition sample_planned :: "string list run" where
  "sample_planned = (initialRun [])\<lparr>idsToFileInfo := [(''0a01'', sample_rootInfo)]\<rparr>"




text \<open>Two pages that name each other as parent.\<close>

definition sample_cycleA :: NotionFileInfo where
  "sample_cycleA =
     \<lparr>docId = ''0a01'', title = ''A'', parentId = Some ''0a02'',
      originPath = ''B 0a02/A 0a01.html'', docSize = 1, folderSegments = []\<rparr>"

definition sample_cycleB :: NotionFileInfo where
  "sample_cycleB =
     \<lparr>docId = ''0a02'', title = ''B'', parentId = Some ''0a01'',
      originPath = ''A 0a01/B 0a02.html'', docSize = 1, folderSegments = []\<rparr>"

definition sample_cycle :: "NotionFileInfo Record" where
  "sample_cycle = [(''0a01'', sample_cycleA), (''0a02'', sample_cycleB)]"

text \<open>Mappings in which a page was exported twice, in 10 and in 500 bytes, the second
  export under an id with a suffix; a sub-page and a picture refer to the first. Then the
  mappings the resolver makes of them.\<close>

definition sample_duplicates :: Mappings where
  "sample_duplicates =
     ([(''0a01'', \<lparr>docId = ''0a01'', title = ''Root'', parentId = None,
                    originPath = ''Root 0a01.html'', docSize = 10,
                    folderSegments = []\<rparr>),
       (''0a01-1'', \<lparr>docId = ''0a01-1'', title = ''Root'', parentId = None,
                    originPath = ''Root 0a01-1.html'', docSize = 500,
                    folderSegments = []\<rparr>),
       (''0a02'', \<lparr>docId = ''0a02'', title = ''Child'', parentId = Some ''0a01'',
                    originPath = ''Root 0a01/Child 0a02.html'', docSize = 1,
                    folderSegments = []\<rparr>)],
      [(''Root 0a01/pic.png'', sample_pictureInfo)])"

definition sample_resolved :: Mappings where
  "sample_resolved =
     ([(''0a01-1'', \<lparr>docId = ''0a01-1'', title = ''Root'', parentId = None,
                    originPath = ''Root 0a01-1.html'', docSize = 500,
                    folderSegments = []\<rparr>),
       (''0a02'', \<lparr>docId = ''0a02'', title = ''Child'', parentId = Some ''0a01-1'',
                    originPath = ''Root 0a01/Child 0a02.html'', docSize = 1,
                    folderSegments = [''Root/'']\<rparr>)],
      [(''Root 0a01/pic.png'', sample_pictureInfo\<lparr>ownerId := Some ''0a01-1''\<rparr>)])"

text \<open>The mappings the resolver makes of them when parents are saved in subfolders.\<close>

definition sample_nested :: Mappings where
  "sample_nested =
     ([(''0a01-1'', \<lparr>docId = ''0a01-1'', title = ''Root'', parentId = None,
                    originPath = ''Root 0a01-1.html'', docSize = 500,
                    folderSegments = [''Root/'']\<rparr>),
       (''0a02'', \<lparr>docId = ''0a02'', title = ''Child'', parentId = Some ''0a01-1'',
                    originPath = ''Root 0a01/Child 0a02.html'', docSize = 1,
                    folderSegments = [''Root/'', ''Child/'']\<rparr>)],
      [(''Root 0a01/pic.png'',
        sample_pictureInfo\<lparr>ownerId := Some ''0a01-1'', targetParentFolder := ''Notion/Root/''\<rparr>)])"

subsection \<open>Reading a trace\<close>

fun isProgress :: "event \<Rightarrow> bool" where
  "isProgress (ReportProgress k n) = True"
| "isProgress e = False"

fun isFailed :: "event \<Rightarrow> bool" where
  "isFailed (ReportFailed p e) = True"
| "isFailed e = False"

fun isNotice :: "event \<Rightarrow> bool" where
  "isNotice (Notice m) = True"
| "isNotice e = False"

fun isCreateFolders :: "event \<Rightarrow> bool" where
  "isCreateFolders (CreateFolders p) = True"
| "isCreateFolders e = False"

text \<open>The events of the \<^verbatim>\<open>html\<close> branch, and those of the attachment branch.\<close>

fun isDocumentEvent :: "event \<Rightarrow> bool" where
  "isDocumentEvent (VaultCreate p b) = True"
| "isDocumentEvent (ProcessFrontMatter p ps) = True"
| "isDocumentEvent (ReportNoteSuccess p) = True"
| "isDocumentEvent e = False"

fun isAttachmentEvent :: "event \<Rightarrow> bool" where
  "isAttachmentEvent (WriteBinary p b) = True"
| "isAttachmentEvent (ReportAttachmentSuccess p) = True"
| "isAttachmentEvent e = False"

text \<open>A write to the vault.\<close>

fun isWrite :: "event \<Rightarrow> bool" where
  "isWrite (VaultCreate p b) = True"
| "isWrite (ProcessFrontMatter p ps) = True"
| "isWrite (WriteBinary p b) = True"
| "isWrite e = False"


fun createdDocuments :: "event list \<Rightarrow> string list" where
  "createdDocuments [] = []"
| "createdDocuments (VaultCreate p b # es) = p # createdDocuments es"
| "createdDocuments (e # es) = createdDocuments es"

text \<open>The events a step adds to the trace.\<close>

definition emitted :: "'w run \<Rightarrow> 'w run \<Rightarrow> event list" where
  "emitted s s' = drop (length (trace s)) (trace s')"

fun isSkipped :: "event \<Rightarrow> bool" where
  "isSkipped (ReportSkipped p) = True"
| "isSkipped e = False"

text \<open>A step that only adds events to the trace: the mappings and the counter stay.\<close>

definition extends :: "'w run \<Rightarrow> 'w run \<Rightarrow> bool" where
  "extends s s' = (trace s' = trace s @ emitted s s' \<and> idsToFileInfo s' = idsToFileInfo s
     \<and> pathsToAttachmentInfo s' = pathsToAttachmentInfo s \<and> current s' = current s)"

section \<open>Properties\<close>

subsection \<open>Records\<close>

lemma keys_of_distinct: "distinct (keys_of r)" "set (keys_of r) = fst ` set r"
  by (auto simp: keys_of_def insertionOrder_def)


lemma map_of_values_of: "map_of r k = Some v \<Longrightarrow> v \<in> set (values_of r)"
proof -
  assume a: "map_of r k = Some v"
  then have "k \<in> set (keys_of r)"
    unfolding keys_of_distinct(2) by (metis map_of_eq_None_iff option.distinct(1))
  with a show ?thesis
    by (auto simp: values_of_def List.map_filter_def intro!: image_eqI [where x = k])
qed

lemma getProperty_own: "map_of r k = Some v \<Longrightarrow> getProperty r k = Own v"
  by (simp add: getProperty_def)

lemma getProperty_undefined: "getProperty r k = Undefined \<Longrightarrow> map_of r k = None"
  by (simp add: getProperty_def split: option.splits if_splits)

subsection \<open>processZips\<close>

lemma processEntries_invokeEach:
  "processEntries d callback fs s
     = invokeEach callback (filter (\<lambda>file. \<not> isDatabaseCSV d (filepath file)) fs) s"
  by (induction fs arbitrary: s) (auto split: prod.splits sum.splits)

lemma invokeEach_append:
  "invokeEach callback (xs @ ys) s =
     (case invokeEach callback xs s of
        (Inl e, s') \<Rightarrow> (Inl e, s')
      | (Inr u, s') \<Rightarrow> invokeEach callback ys s')"
  by (induction xs arbitrary: s) (auto split: prod.splits sum.splits)

lemma processZips_invokeEach:
  "processZips d zips callback s = invokeEach callback (entriesToProcess d zips) s"
proof (induction zips arbitrary: s)
  case Nil
  show ?case by (simp add: entriesToProcess_def)
next
  case (Cons z zs)
  have "entriesToProcess d (z # zs)
      = filter (\<lambda>file. \<not> isDatabaseCSV d (filepath file)) z @ entriesToProcess d zs"
    by (simp add: entriesToProcess_def)
  then show ?case
    using Cons.IH
    by (simp add: processEntries_invokeEach invokeEach_append split: prod.splits sum.splits)
qed

lemma invokeEach_log:
  "invokeEach (\<lambda>file log. (Inr (), log @ [file])) fs log = (Inr (), log @ fs)"
  by (induction fs arbitrary: log) auto

lemma invokeEach_total:
  "(\<And>file s. fst (callback file s) = Inr ()) \<Longrightarrow>
     invokeEach callback fs s = (Inr (), fold (\<lambda>file s. snd (callback file s)) fs s)"
proof (induction fs arbitrary: s)
  case Nil
  show ?case by simp
next
  case (Cons f fs)
  obtain r s' where c: "callback f s = (r, s')" by (cases "callback f s")
  with Cons.prems [of f s] have "r = Inr ()" by simp
  with c Cons.IH [OF Cons.prems] show ?case by simp
qed

lemma sample_csv:
  "isDatabaseCSV sampleCollaborators (filepath sample_database)"
  "\<not> isDatabaseCSV sampleCollaborators (filepath sample_sheet)"
  "\<not> isDatabaseCSV sampleCollaborators (filepath sample_root)"
  "\<not> isDatabaseCSV sampleCollaborators (filepath sample_child)"
  "\<not> isDatabaseCSV sampleCollaborators (filepath sample_picture)"
  by (simp_all add: isDatabaseCSV_def sampleCollaborators_def sample_getNotionId_def
       sample_database_def sample_sheet_def sample_root_def sample_child_def
       sample_picture_def endsWith_def truthy_def stripExtension_def isHexDigit_def Let_def)

subsection \<open>The steps of the two passes\<close>

lemma report_simps:
  "trace (report e s) = trace s @ [e]"
  "world (report e s) = world s"
  "idsToFileInfo (report e s) = idsToFileInfo s"
  "pathsToAttachmentInfo (report e s) = pathsToAttachmentInfo s"
  "current (report e s) = current s"
  by (simp_all add: report_def)

lemma emitted_append: "trace s' = trace s @ evs \<Longrightarrow> emitted s s' = evs"
  by (simp add: emitted_def)

lemma convertDocument_extends:
  "convertDocument d t a file s = (r, s') \<Longrightarrow>
     extends s s' \<and> list_all isDocumentEvent (emitted s s')"
  unfolding convertDocument_def extends_def emitted_def Let_def
  by (auto simp: report_simps split: option.splits sum.splits prod.splits if_splits)

lemma copyAttachment_extends:
  "copyAttachment d file s = (r, s') \<Longrightarrow>
     extends s s' \<and> list_all isAttachmentEvent (emitted s s')"
  unfolding copyAttachment_def extends_def emitted_def Let_def
  by (auto simp: report_simps split: option.splits sum.splits prod.splits if_splits)

lemma document_event_kinds:
  "isDocumentEvent e \<Longrightarrow> \<not> isProgress e \<and> \<not> isFailed e \<and> \<not> isCreateFolders e
     \<and> \<not> isNotice e \<and> \<not> isAttachmentEvent e"
  by (cases e) simp_all

lemma attachment_event_kinds:
  "isAttachmentEvent e \<Longrightarrow> \<not> isProgress e \<and> \<not> isFailed e \<and> \<not> isCreateFolders e
     \<and> \<not> isNotice e \<and> \<not> isDocumentEvent e"
  by (cases e) simp_all

text \<open>What the body of the try block may emit.\<close>

lemma tryEntry_extends:
  assumes "tryEntry d t a file s = (r, s')"
  shows "extends s s'"
    and "list_all (\<lambda>e. isDocumentEvent e \<or> isAttachmentEvent e) (emitted s s')"
    and "extension file = ''html'' \<Longrightarrow> list_all isDocumentEvent (emitted s s')"
    and "extension file \<noteq> ''html'' \<Longrightarrow> list_all isAttachmentEvent (emitted s s')"
  using assms convertDocument_extends [of d t a "file" s r s'] copyAttachment_extends [of d "file" s r s']
  by (auto simp: tryEntry_def list_all_iff split: if_splits)

lemma importEntry_ok: "fst (importEntry d t n a file s) = Inr ()"
  by (simp add: importEntry_def Let_def split: prod.splits sum.splits)

lemma scanEntry_ok: "fst (scanEntry d afp file s) = Inr ()"
  by (simp add: scanEntry_def split: prod.splits option.splits)

text \<open>The shape of one step of the second pass.\<close>

lemma importEntry_shape:
  assumes "tryEntry d t a file (report (ReportProgress (current s + 1) n) (s\<lparr>current := current s + 1\<rparr>)) = (r, s3)"
  shows "importEntry d t n a file s
          = (Inr (), case r of Inl e \<Rightarrow> report (ReportFailed (filepath file) e) s3 | Inr u \<Rightarrow> s3)"
    and "trace s3 = trace s @ ReportProgress (current s + 1) n # emitted (report (ReportProgress (current s + 1) n) (s\<lparr>current := current s + 1\<rparr>)) s3"
    and "current s3 = current s + 1"
    and "idsToFileInfo s3 = idsToFileInfo s"
    and "pathsToAttachmentInfo s3 = pathsToAttachmentInfo s"
  using assms tryEntry_extends(1) [OF assms]
  by (auto simp: importEntry_def Let_def extends_def report_simps split: sum.splits)

lemma createdDocuments_append:
  "createdDocuments (xs @ ys) = createdDocuments xs @ createdDocuments ys"
  by (induction xs rule: createdDocuments.induct) auto




lemma createdDocuments_none: "list_all (\<lambda>e. \<not> isDocumentEvent e) es \<Longrightarrow> createdDocuments es = []"
  by (induction es rule: createdDocuments.induct) auto

subsection \<open>The first pass\<close>

lemma scanEntry_step:
  "\<exists>evs. trace (snd (scanEntry d afp file s)) = trace s @ evs \<and> list_all isSkipped evs"
  "world (snd (scanEntry d afp file s)) = world s"
  "current (snd (scanEntry d afp file s)) = current s"
  by (auto simp: scanEntry_def report_simps split: prod.splits option.splits)

lemma scan_fold:
  "scan d this w =
     (Inr (), fold (\<lambda>file s. snd (scanEntry d (case attachmentFolderConfig this of None \<Rightarrow> [] | Some p \<Rightarrow> p) file s))
                (entriesToProcess d (files this)) (initialRun w))"
  unfolding scan_def processZips_invokeEach
  by (rule invokeEach_total) (rule scanEntry_ok)

lemma scan_fold_props:
  "list_all isSkipped (trace s) \<Longrightarrow>
     list_all isSkipped (trace (fold (\<lambda>file s. snd (scanEntry d afp file s)) fs s))
   \<and> world (fold (\<lambda>file s. snd (scanEntry d afp file s)) fs s) = world s
   \<and> current (fold (\<lambda>file s. snd (scanEntry d afp file s)) fs s) = current s"
proof (induction fs arbitrary: s)
  case Nil
  then show ?case by simp
next
  case (Cons f fs)
  obtain evs where "trace (snd (scanEntry d afp f s)) = trace s @ evs" "list_all isSkipped evs"
    using scanEntry_step(1) [of d afp f s] by blast
  with Cons.prems have "list_all isSkipped (trace (snd (scanEntry d afp f s)))" by simp
  from Cons.IH [OF this] show ?case by (simp add: scanEntry_step)
qed

lemma scan_props:
  "fst (scan d this w) = Inr ()"
  "list_all isSkipped (trace (snd (scan d this w)))"
  "world (snd (scan d this w)) = w"
  "current (snd (scan d this w)) = 0"
  using scan_fold_props [of "initialRun w" d _ "entriesToProcess d (files this)"]
  by (simp_all add: scan_fold initialRun_def)

subsection \<open>Planning\<close>

lemma fold_setAdd: "set (fold setAdd xs acc) = set acc \<union> set xs"
  by (induction xs arbitrary: acc) (auto simp: setAdd_def)

lemma fold_setAdd_distinct: "distinct acc \<Longrightarrow> distinct (fold setAdd xs acc)"
  by (induction xs arbitrary: acc) (auto simp: setAdd_def)

lemma flatFolderPaths_set:
  "set (flatFolderPaths d t ids atts) = insert t (set (allFolderPaths d t ids atts))"
  "distinct (flatFolderPaths d t ids atts)"
  by (simp_all add: flatFolderPaths_def fold_setAdd fold_setAdd_distinct)

lemma fold_createFolder:
  "trace (fold (createFolder d) ps s) = trace s @ map CreateFolders ps
   \<and> idsToFileInfo (fold (createFolder d) ps s) = idsToFileInfo s
   \<and> pathsToAttachmentInfo (fold (createFolder d) ps s) = pathsToAttachmentInfo s
   \<and> current (fold (createFolder d) ps s) = current s"
  by (induction ps arbitrary: s) (auto simp: createFolder_def report_simps)

lemma plan_props:
  "trace (plan d this t s) = trace s @ map CreateFolders
       (flatFolderPaths d t (idsToFileInfo (plan d this t s)) (pathsToAttachmentInfo (plan d this t s)))"
  "(idsToFileInfo (plan d this t s), pathsToAttachmentInfo (plan d this t s))
     = cleanDuplicates d (world s) (case attachmentFolderConfig this of None \<Rightarrow> [] | Some p \<Rightarrow> p)
         t (parentsInSubfolders this) (idsToFileInfo s, pathsToAttachmentInfo s)"
  "current (plan d this t s) = current s"
  by (auto simp: plan_def fold_createFolder split: prod.splits)

subsection \<open>The second pass\<close>

lemma convert_fold:
  "convert d this t n s =
     (Inr (), fold (\<lambda>file s'. snd (importEntry d t n (keys_of (pathsToAttachmentInfo s)) file s'))
                (entriesToProcess d (files this)) (s\<lparr>current := 0\<rparr>))"
  unfolding convert_def processZips_invokeEach
  by (rule invokeEach_total) (rule importEntry_ok)

text \<open>One step of the second pass: the progress event, then the events of the entry.\<close>

lemma importEntry_step:
  "\<exists>evs. trace (snd (importEntry d t n a file s)) = trace s @ ReportProgress (current s + 1) n # evs
      \<and> list_all (\<lambda>e. isDocumentEvent e \<or> isAttachmentEvent e \<or> isFailed e) evs
      \<and> createdDocuments evs = createdDocuments (emitted
            (report (ReportProgress (current s + 1) n) (s\<lparr>current := current s + 1\<rparr>))
            (snd (tryEntry d t a file (report (ReportProgress (current s + 1) n) (s\<lparr>current := current s + 1\<rparr>)))))"
  "current (snd (importEntry d t n a file s)) = current s + 1"
  "idsToFileInfo (snd (importEntry d t n a file s)) = idsToFileInfo s"
  "pathsToAttachmentInfo (snd (importEntry d t n a file s)) = pathsToAttachmentInfo s"
proof -
  let ?s2 = "report (ReportProgress (current s + 1) n) (s\<lparr>current := current s + 1\<rparr>)"
  obtain r s3 where t: "tryEntry d t a file ?s2 = (r, s3)" by (cases "tryEntry d t a file ?s2")
  note sh = importEntry_shape [OF t]
  have ev: "list_all (\<lambda>e. isDocumentEvent e \<or> isAttachmentEvent e) (emitted ?s2 s3)"
    by (rule tryEntry_extends(2) [OF t])
  show "current (snd (importEntry d t n a file s)) = current s + 1"
    "idsToFileInfo (snd (importEntry d t n a file s)) = idsToFileInfo s"
    "pathsToAttachmentInfo (snd (importEntry d t n a file s)) = pathsToAttachmentInfo s"
    using sh by (auto simp: report_simps split: sum.splits)
  show "\<exists>evs. trace (snd (importEntry d t n a file s)) = trace s @ ReportProgress (current s + 1) n # evs
      \<and> list_all (\<lambda>e. isDocumentEvent e \<or> isAttachmentEvent e \<or> isFailed e) evs
      \<and> createdDocuments evs = createdDocuments (emitted ?s2 (snd (tryEntry d t a file ?s2)))"
  proof (cases r)
    case (Inl e)
    with sh ev t show ?thesis
      by (intro exI [of _ "emitted ?s2 s3 @ [ReportFailed (filepath file) e]"])
         (auto simp: report_simps list_all_iff createdDocuments_append)
  next
    case (Inr u)
    with sh ev t show ?thesis
      by (intro exI [of _ "emitted ?s2 s3"]) (auto simp: report_simps list_all_iff)
  qed
qed

lemma convertDocument_paths:
  "set (createdDocuments (emitted s (snd (convertDocument d t a file s))))
     \<subseteq> (case getNotionId d (name file) of
           None \<Rightarrow> {}
         | Some i \<Rightarrow> (case map_of (idsToFileInfo s) i of
                        None \<Rightarrow> {}
                      | Some fileInfo \<Rightarrow> {documentPath d t (idsToFileInfo s) fileInfo}))"
  unfolding convertDocument_def emitted_def Let_def
  by (auto simp: report_simps split: option.splits sum.splits prod.splits if_splits)

lemma tryEntry_paths:
  "set (createdDocuments (emitted s (snd (tryEntry d t a file s))))
     \<subseteq> documentPath d t (idsToFileInfo s) ` set (values_of (idsToFileInfo s))"
proof (cases "extension file = ''html''")
  case True
  then have "tryEntry d t a file s = convertDocument d t a file s"
    by (simp add: tryEntry_def)
  with convertDocument_paths [of s d t a "file"] show ?thesis
    by (auto split: option.splits dest: map_of_values_of)
next
  case False
  obtain r s' where c: "tryEntry d t a file s = (r, s')" by (cases "tryEntry d t a file s")
  from tryEntry_extends(4) [OF c False]
  have "list_all (\<lambda>e. \<not> isDocumentEvent e) (emitted s s')"
    by (auto simp: list_all_iff dest: attachment_event_kinds)
  with c show ?thesis by (simp add: createdDocuments_none)
qed

lemma entry_event_kinds:
  "isDocumentEvent e \<or> isAttachmentEvent e \<or> isFailed e \<Longrightarrow>
     \<not> isProgress e \<and> \<not> isCreateFolders e \<and> \<not> isNotice e"
  by (cases e) simp_all

lemma pass2_fold:
  "current (fold (\<lambda>file s. snd (importEntry d t n a file s)) fs s) = current s + length fs
   \<and> idsToFileInfo (fold (\<lambda>file s. snd (importEntry d t n a file s)) fs s) = idsToFileInfo s
   \<and> pathsToAttachmentInfo (fold (\<lambda>file s. snd (importEntry d t n a file s)) fs s)
       = pathsToAttachmentInfo s
   \<and> (\<exists>evs. trace (fold (\<lambda>file s. snd (importEntry d t n a file s)) fs s) = trace s @ evs
        \<and> filter isProgress evs
            = map (\<lambda>k. ReportProgress k n) [current s + 1 ..< current s + length fs + 1]
        \<and> list_all (\<lambda>e. \<not> isCreateFolders e \<and> \<not> isNotice e) evs
        \<and> set (createdDocuments evs)
            \<subseteq> documentPath d t (idsToFileInfo s) ` set (values_of (idsToFileInfo s)))"
proof (induction fs arbitrary: s)
  case Nil
  show ?case by simp
next
  case (Cons f fs)
  let ?s1 = "snd (importEntry d t n a f s)"
  let ?s2 = "report (ReportProgress (current s + 1) n) (s\<lparr>current := current s + 1\<rparr>)"
  obtain e1 where e1: "trace ?s1 = trace s @ ReportProgress (current s + 1) n # e1"
    "list_all (\<lambda>e. isDocumentEvent e \<or> isAttachmentEvent e \<or> isFailed e) e1"
    "createdDocuments e1 = createdDocuments (emitted ?s2 (snd (tryEntry d t a f ?s2)))"
    using importEntry_step(1) [of d t n a f s] by blast
  note st = importEntry_step(2-4) [of d t n a f s]
  obtain e2 where e2: "trace (fold (\<lambda>file s. snd (importEntry d t n a file s)) fs ?s1) = trace ?s1 @ e2"
    "filter isProgress e2 = map (\<lambda>k. ReportProgress k n) [current ?s1 + 1 ..< current ?s1 + length fs + 1]"
    "list_all (\<lambda>e. \<not> isCreateFolders e \<and> \<not> isNotice e) e2"
    "set (createdDocuments e2) \<subseteq> documentPath d t (idsToFileInfo ?s1) ` set (values_of (idsToFileInfo ?s1))"
    using Cons.IH [of ?s1] by blast
  have np: "filter isProgress e1 = []"
    using e1(2) entry_event_kinds by (fastforce simp: list_all_iff filter_empty_conv)
  have nc: "list_all (\<lambda>e. \<not> isCreateFolders e \<and> \<not> isNotice e) e1"
    using e1(2) entry_event_kinds by (fastforce simp: list_all_iff)
  have cd: "set (createdDocuments e1) \<subseteq> documentPath d t (idsToFileInfo s) ` set (values_of (idsToFileInfo s))"
    using tryEntry_paths [of ?s2 d t a f] e1(3) by (simp add: report_simps)
  have up: "[current s + 1 ..< current s + length (f # fs) + 1]
      = (current s + 1) # [current s + 1 + 1 ..< current s + 1 + length fs + 1]"
  proof -
    have "current s + 1 < current s + length (f # fs) + 1" by simp
    from upt_conv_Cons [OF this] show ?thesis by simp
  qed
  have "trace (fold (\<lambda>file s. snd (importEntry d t n a file s)) (f # fs) s)
      = trace s @ (ReportProgress (current s + 1) n # e1 @ e2)"
    using e1(1) e2(1) by simp
  moreover have "filter isProgress (ReportProgress (current s + 1) n # e1 @ e2)
      = map (\<lambda>k. ReportProgress k n) [current s + 1 ..< current s + length (f # fs) + 1]"
    using np e2(2) st(1) unfolding up by simp
  moreover have "list_all (\<lambda>e. \<not> isCreateFolders e \<and> \<not> isNotice e) (ReportProgress (current s + 1) n # e1 @ e2)"
    using nc e2(3) by simp
  moreover have "set (createdDocuments (ReportProgress (current s + 1) n # e1 @ e2))
      \<subseteq> documentPath d t (idsToFileInfo s) ` set (values_of (idsToFileInfo s))"
    using cd e2(4) st(2) by (simp add: createdDocuments_append)
  ultimately show ?case
    using Cons.IH [of ?s1] st by simp
qed

lemma import_run:
  "files this \<noteq> [] \<Longrightarrow> outputFolder this = Some folderPath \<Longrightarrow>
     import d this w
       = convert d this (targetFolderPathOf d folderPath) (totalOf (snd (scan d this w)))
           (plan d this (targetFolderPathOf d folderPath) (snd (scan d this w)))"
  using scan_props(1) [of d this w]
  by (cases "scan d this w") (simp add: import_def)

lemma endsWith_slash: "endsWith (targetFolderPathOf d folderPath) ''/''"
  by (simp add: targetFolderPathOf_def Let_def endsWith_def)

text \<open>The trace of a run that passes both pre-flight checks.\<close>

lemma import_structure:
  assumes "files this \<noteq> []" and "outputFolder this = Some folderPath"
  shows "fst (import d this w) = Inr ()"
    and "current (snd (import d this w)) = length (entriesToProcess d (files this))"
    and "\<exists>skips evs.
           trace (snd (import d this w))
             = skips @ map CreateFolders
                 (flatFolderPaths d (targetFolderPathOf d folderPath)
                    (idsToFileInfo (snd (import d this w)))
                    (pathsToAttachmentInfo (snd (import d this w)))) @ evs
           \<and> list_all isSkipped skips
           \<and> filter isProgress evs
               = map (\<lambda>k. ReportProgress k (totalOf (snd (scan d this w))))
                   [1 ..< length (entriesToProcess d (files this)) + 1]
           \<and> list_all (\<lambda>e. \<not> isCreateFolders e \<and> \<not> isNotice e) evs
           \<and> set (createdDocuments evs)
               \<subseteq> documentPath d (targetFolderPathOf d folderPath)
                     (idsToFileInfo (snd (import d this w)))
                   ` set (values_of (idsToFileInfo (snd (import d this w))))"
proof -
  let ?t = "targetFolderPathOf d folderPath"
  let ?s1 = "snd (scan d this w)"
  let ?s2 = "plan d this ?t ?s1"
  let ?n = "totalOf ?s1"
  let ?a = "keys_of (pathsToAttachmentInfo ?s2)"
  let ?fs = "entriesToProcess d (files this)"
  let ?r = "fold (\<lambda>file s. snd (importEntry d ?t ?n ?a file s)) ?fs (?s2\<lparr>current := 0\<rparr>)"
  have run: "import d this w = (Inr (), ?r)"
    using import_run [OF assms] by (simp add: convert_fold)
  note p2 = pass2_fold [of d ?t ?n ?a ?fs "?s2\<lparr>current := 0\<rparr>"]
  show "fst (import d this w) = Inr ()" using run by simp
  show "current (snd (import d this w)) = length ?fs" using run p2 by simp
  have ids: "idsToFileInfo ?r = idsToFileInfo ?s2" "pathsToAttachmentInfo ?r = pathsToAttachmentInfo ?s2"
    using p2 by simp_all
  obtain evs where evs: "trace ?r = trace ?s2 @ evs"
    "filter isProgress evs = map (\<lambda>k. ReportProgress k ?n) [1 ..< length ?fs + 1]"
    "list_all (\<lambda>e. \<not> isCreateFolders e \<and> \<not> isNotice e) evs"
    "set (createdDocuments evs) \<subseteq> documentPath d ?t (idsToFileInfo ?s2) ` set (values_of (idsToFileInfo ?s2))"
    using p2 by auto
  have "trace ?r = trace ?s1 @ map CreateFolders
           (flatFolderPaths d ?t (idsToFileInfo ?r) (pathsToAttachmentInfo ?r)) @ evs"
    using evs(1) plan_props(1) [of d this ?t ?s1] ids by simp
  with evs(2-4) ids scan_props(2) [of d this w] run
  show "\<exists>skips evs.
           trace (snd (import d this w))
             = skips @ map CreateFolders
                 (flatFolderPaths d (targetFolderPathOf d folderPath)
                    (idsToFileInfo (snd (import d this w)))
                    (pathsToAttachmentInfo (snd (import d this w)))) @ evs
           \<and> list_all isSkipped skips
           \<and> filter isProgress evs
               = map (\<lambda>k. ReportProgress k (totalOf (snd (scan d this w))))
                   [1 ..< length (entriesToProcess d (files this)) + 1]
           \<and> list_all (\<lambda>e. \<not> isCreateFolders e \<and> \<not> isNotice e) evs
           \<and> set (createdDocuments evs)
               \<subseteq> documentPath d (targetFolderPathOf d folderPath)
                     (idsToFileInfo (snd (import d this w)))
                   ` set (values_of (idsToFileInfo (snd (import d this w))))"
    by (intro exI [of _ "trace ?s1"] exI [of _ evs]) simp
qed

lemma skipped_kinds:
  "isSkipped e \<Longrightarrow> \<not> isProgress e \<and> \<not> isCreateFolders e \<and> \<not> isNotice e \<and> \<not> isWrite e
     \<and> \<not> isDocumentEvent e"
  by (cases e) simp_all

lemma createdDocuments_skips: "list_all isSkipped es \<Longrightarrow> createdDocuments es = []"
  by (rule createdDocuments_none) (auto simp: list_all_iff dest: skipped_kinds)

lemma createdDocuments_folders: "createdDocuments (map CreateFolders ps) = []"
  by (induction ps) auto

lemma importEntry_failed:
  assumes "tryEntry d t a file (report (ReportProgress (current s + 1) n) (s\<lparr>current := current s + 1\<rparr>)) = (r, s3)"
  shows "filter isFailed (emitted s (snd (importEntry d t n a file s)))
           = (case r of Inl e \<Rightarrow> [ReportFailed (filepath file) e] | Inr u \<Rightarrow> [])"
proof -
  let ?s2 = "report (ReportProgress (current s + 1) n) (s\<lparr>current := current s + 1\<rparr>)"
  note sh = importEntry_shape [OF assms]
  have "list_all (\<lambda>e. isDocumentEvent e \<or> isAttachmentEvent e) (emitted ?s2 s3)"
    by (rule tryEntry_extends(2) [OF assms])
  then have nf: "filter isFailed (emitted ?s2 s3) = []"
    by (auto simp: list_all_iff filter_empty_conv
             dest: document_event_kinds attachment_event_kinds)
  show ?thesis
  proof (cases r)
    case (Inl e)
    with sh have "trace (snd (importEntry d t n a file s))
        = trace s @ ReportProgress (current s + 1) n # emitted ?s2 s3 @ [ReportFailed (filepath file) e]"
      by (simp add: report_simps)
    then show ?thesis using nf Inl by (simp add: emitted_def)
  next
    case (Inr u)
    with sh have "trace (snd (importEntry d t n a file s))
        = trace s @ ReportProgress (current s + 1) n # emitted ?s2 s3"
      by simp
    then show ?thesis using nf Inr by (simp add: emitted_def)
  qed
qed

lemma import_ok: "fst (import d this w) = Inr ()"
proof (cases "files this = []")
  case True
  then show ?thesis by (simp add: import_def)
next
  case False
  show ?thesis
  proof (cases "outputFolder this")
    case None
    with False show ?thesis by (simp add: import_def)
  next
    case (Some folderPath)
    from import_structure(1) [OF False Some] show ?thesis .
  qed
qed

lemma import_events:
  assumes "files this \<noteq> []" and "outputFolder this = Some folderPath"
  shows "list_all (\<lambda>e. \<not> isNotice e) (trace (snd (import d this w)))"
    and "CreateFolders (targetFolderPathOf d folderPath) \<in> set (trace (snd (import d this w)))"
    and "filter isProgress (trace (snd (import d this w)))
           = map (\<lambda>k. ReportProgress k (totalOf (snd (scan d this w))))
               [1 ..< length (entriesToProcess d (files this)) + 1]"
proof -
  let ?flat = "flatFolderPaths d (targetFolderPathOf d folderPath)
                    (idsToFileInfo (snd (import d this w)))
                    (pathsToAttachmentInfo (snd (import d this w)))"
  obtain skips evs where tr: "trace (snd (import d this w)) = skips @ map CreateFolders ?flat @ evs"
    and sk: "list_all isSkipped skips"
    and pr: "filter isProgress evs = map (\<lambda>k. ReportProgress k (totalOf (snd (scan d this w))))
                   [1 ..< length (entriesToProcess d (files this)) + 1]"
    and ev: "list_all (\<lambda>e. \<not> isCreateFolders e \<and> \<not> isNotice e) evs"
    using import_structure(3) [OF assms, of d w] by blast
  have "targetFolderPathOf d folderPath \<in> set ?flat"
    by (simp add: flatFolderPaths_set)
  then show "CreateFolders (targetFolderPathOf d folderPath) \<in> set (trace (snd (import d this w)))"
    using tr by simp
  have "filter isProgress skips = []"
    using sk by (auto simp: list_all_iff filter_empty_conv dest: skipped_kinds)
  moreover have "filter isProgress (map CreateFolders ?flat) = []"
    by (simp add: filter_empty_conv image_iff)
  ultimately show "filter isProgress (trace (snd (import d this w)))
           = map (\<lambda>k. ReportProgress k (totalOf (snd (scan d this w))))
               [1 ..< length (entriesToProcess d (files this)) + 1]"
    using tr pr by simp
  have "list_all (\<lambda>e. \<not> isNotice e) skips"
    using sk by (auto simp: list_all_iff dest: skipped_kinds)
  moreover have "list_all (\<lambda>e. \<not> isNotice e) (map CreateFolders ?flat)"
    by (simp add: list_all_iff image_iff)
  moreover have "list_all (\<lambda>e. \<not> isNotice e) evs"
    using ev by (simp add: list_all_iff)
  ultimately show "list_all (\<lambda>e. \<not> isNotice e) (trace (snd (import d this w)))"
    using tr by simp
qed

lemma importEntry_emitted:
  assumes "tryEntry d t a entry (report (ReportProgress (current s + 1) n) (s\<lparr>current := current s + 1\<rparr>)) = (r, s3)"
  shows "emitted s (snd (importEntry d t n a entry s))
           = ReportProgress (current s + 1) n
               # emitted (report (ReportProgress (current s + 1) n) (s\<lparr>current := current s + 1\<rparr>)) s3
               @ (case r of Inl e \<Rightarrow> [ReportFailed (filepath entry) e] | Inr u \<Rightarrow> [])"
proof -
  let ?s2 = "report (ReportProgress (current s + 1) n) (s\<lparr>current := current s + 1\<rparr>)"
  note sh = importEntry_shape(1,2) [OF assms]
  show ?thesis
  proof (cases r)
    case (Inl e)
    with sh have "trace (snd (importEntry d t n a entry s))
        = trace s @ (ReportProgress (current s + 1) n # emitted ?s2 s3
                       @ [ReportFailed (filepath entry) e])"
      by (simp add: report_simps)
    from emitted_append [OF this] Inl show ?thesis by simp
  next
    case (Inr u)
    with sh have "trace (snd (importEntry d t n a entry s))
        = trace s @ (ReportProgress (current s + 1) n # emitted ?s2 s3)"
      by simp
    from emitted_append [OF this] Inr show ?thesis by simp
  qed
qed

text \<open>The step of the second pass, case by case.\<close>

lemma importEntry_cases:
  shows "trace (snd (importEntry d t n a entry s)) = trace s @ emitted s (snd (importEntry d t n a entry s))"
    and "current (snd (importEntry d t n a entry s)) = current s + 1"
    and "idsToFileInfo (snd (importEntry d t n a entry s)) = idsToFileInfo s"
    and "pathsToAttachmentInfo (snd (importEntry d t n a entry s)) = pathsToAttachmentInfo s"
    and "(extension entry = ''html'' \<longrightarrow>
      list_all (\<lambda>e. \<not> isAttachmentEvent e) (emitted s (snd (importEntry d t n a entry s))))"
    and "(extension entry \<noteq> ''html'' \<longrightarrow>
      list_all (\<lambda>e. \<not> isDocumentEvent e) (emitted s (snd (importEntry d t n a entry s))))"
    and "(extension entry = ''html'' \<and> \<not> truthy (getNotionId d (name entry)) \<longrightarrow>
      emitted s (snd (importEntry d t n a entry s))
        = [ReportProgress (current s + 1) n,
           ReportFailed (filepath entry) (Error (''ids not found for '' @ filepath entry))]
      \<and> world (snd (importEntry d t n a entry s)) = world s)"
    and "(extension entry = ''html'' \<and> getNotionId d (name entry) = Some i \<and> i \<noteq> []
        \<and> getProperty (idsToFileInfo s) i = Undefined \<longrightarrow>
      emitted s (snd (importEntry d t n a entry s))
        = [ReportProgress (current s + 1) n,
           ReportFailed (filepath entry) (Error (''file info not found for '' @ filepath entry))]
      \<and> world (snd (importEntry d t n a entry s)) = world s)"
    and "(extension entry = ''html'' \<and> getNotionId d (name entry) = Some i \<and> i \<noteq> []
        \<and> map_of (idsToFileInfo s) i = Some fileInfo
        \<and> readToMarkdown d entry a (idsToFileInfo s, pathsToAttachmentInfo s) = Inl e \<longrightarrow>
      emitted s (snd (importEntry d t n a entry s))
        = [ReportProgress (current s + 1) n,
           ReportFailed (filepath entry) e]
      \<and> world (snd (importEntry d t n a entry s)) = world s)"
    and "(extension entry = ''html'' \<and> getNotionId d (name entry) = Some i \<and> i \<noteq> []
        \<and> map_of (idsToFileInfo s) i = Some fileInfo
        \<and> readToMarkdown d entry a (idsToFileInfo s, pathsToAttachmentInfo s)
              = Inr (markdownBody, properties)
        \<and> vaultCreate d (documentPath d t (idsToFileInfo s) fileInfo)
             markdownBody (world s) = (Some e, w') \<longrightarrow>
      emitted s (snd (importEntry d t n a entry s))
        = [ReportProgress (current s + 1) n,
           VaultCreate (documentPath d t (idsToFileInfo s) fileInfo) markdownBody,
           ReportFailed (filepath entry) e]
      \<and> world (snd (importEntry d t n a entry s)) = w')"
    and "(extension entry = ''html'' \<and> getNotionId d (name entry) = Some i \<and> i \<noteq> []
        \<and> map_of (idsToFileInfo s) i = Some fileInfo
        \<and> readToMarkdown d entry a (idsToFileInfo s, pathsToAttachmentInfo s)
              = Inr (markdownBody, [])
        \<and> vaultCreate d (documentPath d t (idsToFileInfo s) fileInfo)
             markdownBody (world s) = (None, w') \<longrightarrow>
      emitted s (snd (importEntry d t n a entry s))
        = [ReportProgress (current s + 1) n,
           VaultCreate (documentPath d t (idsToFileInfo s) fileInfo) markdownBody,
           ReportNoteSuccess (filepath entry)]
      \<and> world (snd (importEntry d t n a entry s)) = w')"
    and "(extension entry = ''html'' \<and> getNotionId d (name entry) = Some i \<and> i \<noteq> []
        \<and> map_of (idsToFileInfo s) i = Some fileInfo
        \<and> readToMarkdown d entry a (idsToFileInfo s, pathsToAttachmentInfo s)
              = Inr (markdownBody, properties)
        \<and> vaultCreate d (documentPath d t (idsToFileInfo s) fileInfo)
             markdownBody (world s) = (None, w')
        \<and> properties \<noteq> []
        \<and> processFrontMatter d (documentPath d t (idsToFileInfo s) fileInfo)
             properties w' = (Some e, w'') \<longrightarrow>
      emitted s (snd (importEntry d t n a entry s))
        = [ReportProgress (current s + 1) n,
           VaultCreate (documentPath d t (idsToFileInfo s) fileInfo) markdownBody,
           ProcessFrontMatter (documentPath d t (idsToFileInfo s) fileInfo) properties,
           ReportFailed (filepath entry) e]
      \<and> world (snd (importEntry d t n a entry s)) = w'')"
    and "(extension entry = ''html'' \<and> getNotionId d (name entry) = Some i \<and> i \<noteq> []
        \<and> map_of (idsToFileInfo s) i = Some fileInfo
        \<and> readToMarkdown d entry a (idsToFileInfo s, pathsToAttachmentInfo s)
              = Inr (markdownBody, properties)
        \<and> vaultCreate d (documentPath d t (idsToFileInfo s) fileInfo)
             markdownBody (world s) = (None, w')
        \<and> properties \<noteq> []
        \<and> processFrontMatter d (documentPath d t (idsToFileInfo s) fileInfo)
             properties w' = (None, w'') \<longrightarrow>
      emitted s (snd (importEntry d t n a entry s))
        = [ReportProgress (current s + 1) n,
           VaultCreate (documentPath d t (idsToFileInfo s) fileInfo) markdownBody,
           ProcessFrontMatter (documentPath d t (idsToFileInfo s) fileInfo) properties,
           ReportNoteSuccess (filepath entry)]
      \<and> world (snd (importEntry d t n a entry s)) = w'')"
    and "documentPath d t (idsToFileInfo s) fileInfo
       = t @ concat (assembleParentIds d fileInfo (idsToFileInfo s)) @ title fileInfo @ ''.md''"
    and "(map_of (pathsToAttachmentInfo s) (filepath entry) = Some attachmentInfo \<longrightarrow>
      attachmentTarget d (getProperty (pathsToAttachmentInfo s) (filepath entry))
        = Some (normalizePath d (targetParentFolder attachmentInfo
                                   @ nameWithExtension attachmentInfo)))"
    and "(map_of (pathsToAttachmentInfo s) (filepath entry) = None
        \<and> filepath entry \<in> set objectPrototypeKeys \<longrightarrow>
      attachmentTarget d (getProperty (pathsToAttachmentInfo s) (filepath entry))
        = Some (normalizePath d ''undefinedundefined''))"
    and "(map_of (pathsToAttachmentInfo s) (filepath entry) = None
        \<and> filepath entry \<notin> set objectPrototypeKeys \<longrightarrow>
      getProperty (pathsToAttachmentInfo s) (filepath entry) = Undefined)"
    and "(extension entry \<noteq> ''html''
        \<and> getProperty (pathsToAttachmentInfo s) (filepath entry) = Undefined \<longrightarrow>
      emitted s (snd (importEntry d t n a entry s))
        = [ReportProgress (current s + 1) n,
           ReportFailed (filepath entry) (Error (''attachment info not found for '' @ filepath entry))]
      \<and> world (snd (importEntry d t n a entry s)) = world s)"
    and "(extension entry \<noteq> ''html''
        \<and> attachmentTarget d (getProperty (pathsToAttachmentInfo s) (filepath entry)) = Some path
        \<and> fileRead d entry = Inl e \<longrightarrow>
      emitted s (snd (importEntry d t n a entry s))
        = [ReportProgress (current s + 1) n,
           ReportFailed (filepath entry) e]
      \<and> world (snd (importEntry d t n a entry s)) = world s)"
    and "(extension entry \<noteq> ''html''
        \<and> attachmentTarget d (getProperty (pathsToAttachmentInfo s) (filepath entry)) = Some path
        \<and> fileRead d entry = Inr data
        \<and> writeBinary d path data (world s) = (Some e, w') \<longrightarrow>
      emitted s (snd (importEntry d t n a entry s))
        = [ReportProgress (current s + 1) n,
           WriteBinary path data,
           ReportFailed (filepath entry) e]
      \<and> world (snd (importEntry d t n a entry s)) = w')"
    and "(extension entry \<noteq> ''html''
        \<and> attachmentTarget d (getProperty (pathsToAttachmentInfo s) (filepath entry)) = Some path
        \<and> fileRead d entry = Inr data
        \<and> writeBinary d path data (world s) = (None, w') \<longrightarrow>
      emitted s (snd (importEntry d t n a entry s))
        = [ReportProgress (current s + 1) n,
           WriteBinary path data,
           ReportAttachmentSuccess (filepath entry)]
      \<and> world (snd (importEntry d t n a entry s)) = w')"
  unfolding importEntry_def tryEntry_def convertDocument_def copyAttachment_def truthy_def Let_def
    emitted_def documentPath_def attachmentTarget_def attachmentPath_def getProperty_def
  by (auto simp: report_simps split: option.splits prod.splits sum.splits if_splits)


subsection \<open>The run with exceptions\<close>












text \<open>Where an exception that leaves a step comes from.\<close>

lemma reportTo_cases:
  "reportTo x ev s = (Inl e, s') \<Longrightarrow> reporter x ev = Some e"
  "reportTo x ev s = (r, s') \<Longrightarrow> s' = report ev s"
  by (auto simp: reportTo_def split: option.splits)























subsection \<open>The hierarchy assembler\<close>

lemma ancestorWalk_invariant:
  "distinct (map fst acc) \<Longrightarrow> fst ` set acc \<subseteq> set visited \<Longrightarrow> list_all (segmentOf m) acc \<Longrightarrow>
     distinct (map fst (ancestorWalk m visited p acc))
   \<and> fst ` set (ancestorWalk m visited p acc) \<subseteq> fst ` set acc \<union> (fst ` set m - set visited)
   \<and> list_all (segmentOf m) (ancestorWalk m visited p acc)"
proof (induction m visited p acc rule: ancestorWalk.induct)
  case (1 allDocuments visited acc)
  then show ?case by auto
next
  case (2 allDocuments visited p acc)
  show ?case
  proof (cases "p \<in> set visited")
    case True
    with 2 show ?thesis by auto
  next
    case False
    show ?thesis
    proof (cases "map_of allDocuments p")
      case None
      with False 2 show ?thesis by auto
    next
      case (Some parent)
      have key: "p \<in> fst ` set allDocuments"
        using Some by (metis map_of_eq_None_iff option.distinct(1))
      have d: "distinct (map fst ((p, title parent @ ''/'') # acc))"
        using "2.prems" False by auto
      have v: "fst ` set ((p, title parent @ ''/'') # acc) \<subseteq> set (p # visited)"
        using "2.prems" by auto
      have g: "list_all (segmentOf allDocuments) ((p, title parent @ ''/'') # acc)"
        using "2.prems" Some by (simp add: segmentOf_def list_all_iff)
      note ih = "2.IH" [OF False Some d v g]
      have "ancestorWalk allDocuments visited (Some p) acc
          = ancestorWalk allDocuments (p # visited) (parentId parent) ((p, title parent @ ''/'') # acc)"
        using False Some by simp
      with ih key False show ?thesis by auto
    qed
  qed
qed

lemma ancestorWalk_follows:
  "\<exists>front. ancestorWalk m visited p acc = front @ acc
      \<and> followsParents m p (rev (map fst front))"
proof (induction m visited p acc rule: ancestorWalk.induct)
  case (1 allDocuments visited acc)
  show ?case by simp
next
  case (2 allDocuments visited p acc)
  show ?case
  proof (cases "p \<in> set visited")
    case True
    then show ?thesis by simp
  next
    case False
    show ?thesis
    proof (cases "map_of allDocuments p")
      case None
      with False show ?thesis by simp
    next
      case (Some parent)
      from "2.IH" [OF False Some] obtain front where
        f: "ancestorWalk allDocuments (p # visited) (parentId parent) ((p, title parent @ ''/'') # acc)
              = front @ (p, title parent @ ''/'') # acc"
        "followsParents allDocuments (parentId parent) (rev (map fst front))"
        by blast
      have "ancestorWalk allDocuments visited (Some p) acc = (front @ [(p, title parent @ ''/'')]) @ acc"
        using False Some f(1) by simp
      moreover have "followsParents allDocuments (Some p) (rev (map fst (front @ [(p, title parent @ ''/'')])))"
        using f(2) Some by (simp add: parentOf_def)
      ultimately show ?thesis by blast
    qed
  qed
qed

lemma ancestorChain_follows:
  "followsParents allDocuments (parentId document) (rev (map fst (ancestorChain document allDocuments)))"
  using ancestorWalk_follows [of allDocuments "[docId document]" "parentId document" "[]"]
  by (auto simp: ancestorChain_def)

subsection \<open>The duplicate resolver\<close>

lemma moreComplete_antisym:
  "moreComplete n k n' k' \<Longrightarrow> moreComplete n' k' n k \<Longrightarrow> n = n' \<and> k = k'"
  by (auto simp: moreComplete_def)

lemma moreComplete_refl: "moreComplete n k n k"
  by (simp add: moreComplete_def)

lemma sameDocument_sym: "sameDocument pol j k = sameDocument pol k j"
  by (auto simp: sameDocument_def)

lemma retained_unique:
  assumes "kv \<in> set ids" "jw \<in> set ids"
    and "retainedDocument pol ids kv" "retainedDocument pol ids jw"
    and "sameDocument pol (fst jw) (fst kv)"
  shows "fst jw = fst kv \<and> docSize (snd jw) = docSize (snd kv)"
proof -
  have "moreComplete (docSize (snd kv)) (fst kv) (docSize (snd jw)) (fst jw)"
    using assms(2,3,5) by (auto simp: retainedDocument_def list_all_iff)
  moreover have "moreComplete (docSize (snd jw)) (fst jw) (docSize (snd kv)) (fst kv)"
    using assms(1,4,5) sameDocument_sym [of pol "fst jw" "fst kv"]
    by (auto simp: retainedDocument_def list_all_iff)
  ultimately show ?thesis using moreComplete_antisym by blast
qed

lemma resolveDocuments_origin:
  assumes "kv' \<in> set (resolveDocuments pol ids)"
  shows "\<exists>kv \<in> set ids. retainedDocument pol ids kv \<and> fst kv' = fst kv
            \<and> docSize (snd kv') = docSize (snd kv)
            \<and> parentId (snd kv') = map_option (retainedId pol ids) (parentId (snd kv))"
  using assms by (auto simp: resolveDocuments_def)

lemma resolveDocuments_retained:
  assumes "kv' \<in> set (resolveDocuments pol ids)"
  shows "retainedDocument pol (resolveDocuments pol ids) kv'"
  unfolding retainedDocument_def list_all_iff
proof
  fix jw' assume j: "jw' \<in> set (resolveDocuments pol ids)"
  obtain kv where kv: "kv \<in> set ids" "retainedDocument pol ids kv" "fst kv' = fst kv"
      "docSize (snd kv') = docSize (snd kv)"
    using resolveDocuments_origin [OF assms] by blast
  obtain jw where jw: "jw \<in> set ids" "retainedDocument pol ids jw" "fst jw' = fst jw"
      "docSize (snd jw') = docSize (snd jw)"
    using resolveDocuments_origin [OF j] by blast
  show "if sameDocument pol (fst jw') (fst kv')
        then moreComplete (docSize (snd kv')) (fst kv') (docSize (snd jw')) (fst jw') else True"
  proof (cases "sameDocument pol (fst jw') (fst kv')")
    case True
    then have "sameDocument pol (fst jw) (fst kv)" using kv(3) jw(3) by simp
    from retained_unique [OF kv(1) jw(1) kv(2) jw(2) this] kv jw True
    show ?thesis by (simp add: moreComplete_refl)
  next
    case False
    then show ?thesis by simp
  qed
qed

lemma find_SomeD: "find P xs = Some x \<Longrightarrow> P x \<and> x \<in> set xs"
  by (auto simp: find_Some_iff)

lemma retainedId_same: "sameDocument pol (retainedId pol ids q) q"
proof (cases "find (\<lambda>kv. sameDocument pol (fst kv) q \<and> retainedDocument pol ids kv) ids")
  case None
  then show ?thesis by (simp add: retainedId_def sameDocument_def)
next
  case (Some kv)
  from find_SomeD [OF this] Some show ?thesis by (simp add: retainedId_def)
qed

lemma retainedId_stable:
  "retainedId pol (resolveDocuments pol ids) (retainedId pol ids q) = retainedId pol ids q"
proof (cases "find (\<lambda>kv. sameDocument pol (fst kv) q \<and> retainedDocument pol ids kv) ids")
  case None
  then have none: "\<And>kv. kv \<in> set ids \<Longrightarrow> \<not> (sameDocument pol (fst kv) q \<and> retainedDocument pol ids kv)"
    by (auto simp: find_None_iff)
  have r: "retainedId pol ids q = q" using None by (simp add: retainedId_def)
  have "find (\<lambda>kv. sameDocument pol (fst kv) q \<and> retainedDocument pol (resolveDocuments pol ids) kv)
          (resolveDocuments pol ids) = None"
    unfolding find_None_iff
  proof (intro notI, elim exE conjE)
    fix x assume x: "x \<in> set (resolveDocuments pol ids)" "sameDocument pol (fst x) q"
    from resolveDocuments_origin [OF x(1)] obtain kv where "kv \<in> set ids"
      "retainedDocument pol ids kv" "fst x = fst kv" by blast
    with none x(2) show False by auto
  qed
  then show ?thesis using r by (simp add: retainedId_def)
next
  case (Some kv)
  then have kv: "kv \<in> set ids" "sameDocument pol (fst kv) q" "retainedDocument pol ids kv"
    using find_SomeD by fastforce+
  have r: "retainedId pol ids q = fst kv" using Some by (simp add: retainedId_def)
  let ?kv' = "(fst kv, (snd kv)\<lparr>parentId := map_option (retainedId pol ids) (parentId (snd kv))\<rparr>)"
  have mem: "?kv' \<in> set (resolveDocuments pol ids)"
    using kv(1,3) by (force simp: resolveDocuments_def)
  have ok: "sameDocument pol (fst ?kv') (fst kv) \<and> retainedDocument pol (resolveDocuments pol ids) ?kv'"
    using resolveDocuments_retained [OF mem] by (simp add: sameDocument_def)
  show ?thesis
  proof (cases "find (\<lambda>x. sameDocument pol (fst x) (fst kv)
                      \<and> retainedDocument pol (resolveDocuments pol ids) x) (resolveDocuments pol ids)")
    case None
    with mem ok show ?thesis by (auto simp: find_None_iff)
  next
    case (Some x)
    then have x: "x \<in> set (resolveDocuments pol ids)" "sameDocument pol (fst x) (fst kv)"
      using find_SomeD by fastforce+
    from resolveDocuments_origin [OF x(1)] obtain jw where jw: "jw \<in> set ids"
      "retainedDocument pol ids jw" "fst x = fst jw" by blast
    from retained_unique [OF kv(1) jw(1) kv(3) jw(2)] x(2) jw(3) have "fst x = fst kv" by simp
    with Some r show ?thesis by (simp add: retainedId_def)
  qed
qed

lemma resolveDocuments_idem: "resolveDocuments pol (resolveDocuments pol ids) = resolveDocuments pol ids"
proof -
  let ?D = "resolveDocuments pol ids"
  have f: "filter (retainedDocument pol ?D) ?D = ?D"
    by (simp add: resolveDocuments_retained)
  have "map (\<lambda>kv. (fst kv, (snd kv)\<lparr>parentId := map_option (retainedId pol ?D) (parentId (snd kv))\<rparr>)) ?D
      = map (\<lambda>kv. kv) ?D"
  proof (rule map_cong [OF refl])
    fix kv' assume m: "kv' \<in> set ?D"
    obtain kv :: "string \<times> NotionFileInfo" where
      p: "parentId (snd kv') = map_option (retainedId pol ids) (parentId (snd kv))"
      using resolveDocuments_origin [OF m] by auto
    have "map_option (retainedId pol ?D) (parentId (snd kv')) = parentId (snd kv')"
      unfolding p by (cases "parentId (snd kv)") (simp_all add: retainedId_stable)
    then show "(fst kv', (snd kv')\<lparr>parentId := map_option (retainedId pol ?D) (parentId (snd kv'))\<rparr>) = kv'"
      by (cases kv') simp
  qed
  then show ?thesis
    by (subst resolveDocuments_def) (simp add: f)
qed

lemma retainedAttachment_unique:
  assumes "kv \<in> set atts" "jw \<in> set atts"
    and "retainedAttachment pol atts kv" "retainedAttachment pol atts jw"
    and "sameAttachment pol (snd jw) (snd kv)"
  shows "fst jw = fst kv \<and> attSize (snd jw) = attSize (snd kv)"
proof -
  have "moreComplete (attSize (snd kv)) (fst kv) (attSize (snd jw)) (fst jw)"
    using assms(2,3,5) by (auto simp: retainedAttachment_def list_all_iff)
  moreover have "sameAttachment pol (snd kv) (snd jw)"
    using assms(5) by (auto simp: sameAttachment_def)
  then have "moreComplete (attSize (snd jw)) (fst jw) (attSize (snd kv)) (fst kv)"
    using assms(1,4) by (auto simp: retainedAttachment_def list_all_iff)
  ultimately show ?thesis using moreComplete_antisym by blast
qed

lemma cleanAttachments_origin:
  assumes "kv' \<in> set (cleanAttachments pol afp tfp sub ids ids' atts)"
  shows "\<exists>kv \<in> set atts. retainedAttachment pol atts kv \<and> fst kv' = fst kv
            \<and> attSize (snd kv') = attSize (snd kv)
            \<and> nameWithExtension (snd kv') = nameWithExtension (snd kv)
            \<and> ownerId (snd kv') = map_option (retainedId pol ids) (ownerId (snd kv))
            \<and> targetParentFolder (snd kv')
                = attachmentFolder pol afp tfp sub ids' (snd kv')"
proof -
  from assms obtain kv where kv: "kv \<in> set atts" "retainedAttachment pol atts kv"
    and eq: "kv' = (fst kv,
            (snd kv)\<lparr>ownerId := map_option (retainedId pol ids) (ownerId (snd kv)),
                     targetParentFolder :=
                       attachmentFolder pol afp tfp sub ids'
                         ((snd kv)\<lparr>ownerId := map_option (retainedId pol ids) (ownerId (snd kv))\<rparr>)\<rparr>)"
    by (auto simp: cleanAttachments_def)
  have "targetParentFolder (snd kv') = attachmentFolder pol afp tfp sub ids' (snd kv')"
    unfolding eq by (simp add: attachmentFolder_def)
  with kv eq show ?thesis by (intro bexI [of _ kv]) simp_all
qed

lemma canonical_owner:
  "map_option (canonicalId pol) (map_option (retainedId pol ids) ow) = map_option (canonicalId pol) ow"
  using retainedId_same [of pol ids] by (cases ow) (simp_all add: sameDocument_def)

lemma cleanAttachments_retained:
  assumes "kv' \<in> set (cleanAttachments pol afp tfp sub ids ids' atts)"
  shows "retainedAttachment pol (cleanAttachments pol afp tfp sub ids ids' atts) kv'"
  unfolding retainedAttachment_def list_all_iff
proof
  fix jw' assume j: "jw' \<in> set (cleanAttachments pol afp tfp sub ids ids' atts)"
  obtain kv where kv: "kv \<in> set atts" "retainedAttachment pol atts kv" "fst kv' = fst kv"
      "attSize (snd kv') = attSize (snd kv)"
      "nameWithExtension (snd kv') = nameWithExtension (snd kv)"
      "ownerId (snd kv') = map_option (retainedId pol ids) (ownerId (snd kv))"
    using cleanAttachments_origin [OF assms] by blast
  obtain jw where jw: "jw \<in> set atts" "retainedAttachment pol atts jw" "fst jw' = fst jw"
      "attSize (snd jw') = attSize (snd jw)"
      "nameWithExtension (snd jw') = nameWithExtension (snd jw)"
      "ownerId (snd jw') = map_option (retainedId pol ids) (ownerId (snd jw))"
    using cleanAttachments_origin [OF j] by blast
  show "if sameAttachment pol (snd jw') (snd kv')
        then moreComplete (attSize (snd kv')) (fst kv') (attSize (snd jw')) (fst jw') else True"
  proof (cases "sameAttachment pol (snd jw') (snd kv')")
    case True
    then have "sameAttachment pol (snd jw) (snd kv)"
      using kv(5,6) jw(5,6) by (simp add: sameAttachment_def canonical_owner)
    from retainedAttachment_unique [OF kv(1) jw(1) kv(2) jw(2) this] kv jw True
    show ?thesis by (simp add: moreComplete_refl)
  next
    case False
    then show ?thesis by simp
  qed
qed

lemma map_of_map_keyed:
  "map_of (map (\<lambda>kv. (fst kv, f kv)) xs) k = map_option (\<lambda>v. f (k, v)) (map_of xs k)"
  by (induction xs) auto

lemma resolveDocuments_parent_stable:
  assumes "kv' \<in> set (resolveDocuments pol ids)"
  shows "map_option (retainedId pol (resolveDocuments pol ids)) (parentId (snd kv')) = parentId (snd kv')"
proof -
  obtain kv :: "string \<times> NotionFileInfo" where
    p: "parentId (snd kv') = map_option (retainedId pol ids) (parentId (snd kv))"
    using resolveDocuments_origin [OF assms] by auto
  show ?thesis
    unfolding p by (cases "parentId (snd kv)") (simp_all add: retainedId_stable)
qed

text \<open>Storing folder segments changes nothing that the resolution reads.\<close>

lemma retainedDocument_placed:
  "retainedDocument pol (map (\<lambda>kv. (fst kv, (snd kv)\<lparr>folderSegments := g kv\<rparr>)) ids)
       (k, v\<lparr>folderSegments := x\<rparr>)
     = retainedDocument pol ids (k, v)"
  by (simp add: retainedDocument_def list_all_iff)

lemma find_mapped: "find P (map f xs) = map_option f (find (P \<circ> f) xs)"
  by (induction xs) auto

lemma retainedId_placed:
  "retainedId pol (map (\<lambda>kv. (fst kv, (snd kv)\<lparr>folderSegments := g kv\<rparr>)) ids) p
     = retainedId pol ids p"
proof -
  let ?F = "\<lambda>kv. (fst kv, (snd kv)\<lparr>folderSegments := g kv\<rparr>)"
  have "(\<lambda>kv. sameDocument pol (fst kv) p \<and> retainedDocument pol (map ?F ids) kv) \<circ> ?F
      = (\<lambda>kv. sameDocument pol (fst kv) p \<and> retainedDocument pol ids kv)"
    using retainedDocument_placed [where pol = pol and g = g and ids = ids]
    by (auto simp: fun_eq_iff)
  then show ?thesis
    by (simp add: retainedId_def find_mapped split: option.splits)
qed

lemma ancestorWalk_placed:
  "ancestorWalk (map (\<lambda>kv. (fst kv, (snd kv)\<lparr>folderSegments := g kv\<rparr>)) ids) visited p acc
     = ancestorWalk ids visited p acc"
proof (induction ids visited p acc rule: ancestorWalk.induct)
  case (1 allDocuments visited acc)
  show ?case by simp
next
  case (2 allDocuments visited p acc)
  show ?case
  proof (cases "p \<in> set visited")
    case True
    then show ?thesis by simp
  next
    case False
    show ?thesis
    proof (cases "map_of allDocuments p")
      case None
      with False show ?thesis by (simp add: map_of_map_keyed)
    next
      case (Some parent)
      with False "2.IH" [OF False Some] show ?thesis by (simp add: map_of_map_keyed)
    qed
  qed
qed

lemma folderContribution_placed:
  "folderContribution sub (map (\<lambda>kv. (fst kv, (snd kv)\<lparr>folderSegments := g kv\<rparr>)) ids)
       (v\<lparr>folderSegments := x\<rparr>)
     = folderContribution sub ids v"
  by (simp add: folderContribution_def assembleParentIds_spec_def ancestorChain_def
        ancestorWalk_placed)

lemma placeDocuments_idem:
  "placeDocuments sub (placeDocuments sub ids) = placeDocuments sub ids"
  unfolding placeDocuments_def
  by (simp add: folderContribution_placed [unfolded placeDocuments_def] comp_def)

lemma resolveDocuments_placed:
  "resolveDocuments pol (placeDocuments sub (resolveDocuments pol ids))
     = placeDocuments sub (resolveDocuments pol ids)"
proof -
  let ?R = "resolveDocuments pol ids"
  let ?F = "\<lambda>kv. (fst kv, (snd kv)\<lparr>folderSegments := folderContribution sub ?R (snd kv)\<rparr>)"
  have p: "placeDocuments sub ?R = map ?F ?R" by (simp add: placeDocuments_def)
  have f: "filter (retainedDocument pol (map ?F ?R)) (map ?F ?R) = map ?F ?R"
  proof -
    have "retainedDocument pol (map ?F ?R) (?F kv)" if "kv \<in> set ?R" for kv
      using retainedDocument_placed [where pol = pol and g = "\<lambda>kv. folderContribution sub ?R (snd kv)"
          and ids = ?R and k = "fst kv" and v = "snd kv"
          and x = "folderContribution sub ?R (snd kv)"]
        resolveDocuments_retained [OF that]
      by simp
    then show ?thesis by (simp add: filter_map comp_def)
  qed
  have "map (\<lambda>kv. (fst kv, (snd kv)\<lparr>parentId := map_option (retainedId pol (map ?F ?R)) (parentId (snd kv))\<rparr>)) (map ?F ?R)
      = map ?F ?R"
  proof -
    have r: "retainedId pol (map ?F ?R) = retainedId pol ?R"
      using retainedId_placed [where pol = pol and g = "\<lambda>kv. folderContribution sub ?R (snd kv)"
          and ids = ?R]
      by (simp add: fun_eq_iff)
    have "(fst (?F kv), (snd (?F kv))\<lparr>parentId := map_option (retainedId pol (map ?F ?R)) (parentId (snd (?F kv)))\<rparr>) = ?F kv"
      if "kv \<in> set ?R" for kv
      unfolding r using resolveDocuments_parent_stable [OF that] by simp
    then show ?thesis by (simp add: comp_def)
  qed
  then show ?thesis
    unfolding p by (subst resolveDocuments_def) (simp only: f)
qed

lemma cleanDocuments_idem:
  "cleanDocuments pol sub (cleanDocuments pol sub ids) = cleanDocuments pol sub ids"
  by (simp add: cleanDocuments_def resolveDocuments_placed placeDocuments_idem)

lemma retainedId_cleaned:
  "retainedId pol (cleanDocuments pol sub ids) (retainedId pol ids q) = retainedId pol ids q"
  by (simp add: cleanDocuments_def placeDocuments_def retainedId_placed retainedId_stable)

lemma cleanAttachments_idem:
  "cleanAttachments pol afp tfp sub (cleanDocuments pol sub ids) (cleanDocuments pol sub ids)
     (cleanAttachments pol afp tfp sub ids (cleanDocuments pol sub ids) atts)
   = cleanAttachments pol afp tfp sub ids (cleanDocuments pol sub ids) atts"
proof -
  let ?D = "cleanDocuments pol sub ids"
  let ?A = "cleanAttachments pol afp tfp sub ids ?D atts"
  have f: "filter (retainedAttachment pol ?A) ?A = ?A"
    by (simp add: cleanAttachments_retained)
  have "map (\<lambda>kv. (fst kv,
            (snd kv)\<lparr>ownerId := map_option (retainedId pol ?D) (ownerId (snd kv)),
                     targetParentFolder :=
                       attachmentFolder pol afp tfp sub ?D
                         ((snd kv)\<lparr>ownerId := map_option (retainedId pol ?D) (ownerId (snd kv))\<rparr>)\<rparr>)) ?A
      = map (\<lambda>kv. kv) ?A"
  proof (rule map_cong [OF refl])
    fix kv' assume m: "kv' \<in> set ?A"
    obtain kv :: "string \<times> NotionAttachmentInfo" where
      o: "ownerId (snd kv') = map_option (retainedId pol ids) (ownerId (snd kv))"
      and t: "targetParentFolder (snd kv') = attachmentFolder pol afp tfp sub ?D (snd kv')"
      using cleanAttachments_origin [OF m] by auto
    have o': "map_option (retainedId pol ?D) (ownerId (snd kv')) = ownerId (snd kv')"
      unfolding o by (cases "ownerId (snd kv)") (simp_all add: retainedId_cleaned)
    show "(fst kv',
            (snd kv')\<lparr>ownerId := map_option (retainedId pol ?D) (ownerId (snd kv')),
                     targetParentFolder :=
                       attachmentFolder pol afp tfp sub ?D
                         ((snd kv')\<lparr>ownerId := map_option (retainedId pol ?D) (ownerId (snd kv'))\<rparr>)\<rparr>) = kv'"
      unfolding o' using t by (cases kv') simp
  qed
  then show ?thesis
    by (subst cleanAttachments_def) (simp add: f)
qed

subsection \<open>Runs of the sample export\<close>

lemma sample_pages_documents:
  "createdDocuments (trace (snd (import sampleCollaborators
       (sample_importer [[sample_root, sample_child]]) [])))
     = [''Notion/Root.md'', ''Notion/Root/Child.md'']"
  by code_simp

lemma sample_blank_trace:
  "trace (snd (import sampleCollaborators (sample_importer [[sample_blank, sample_child]]) []))
     = [CreateFolders ''Notion/'', ReportProgress 1 2,
        ReportFailed ''Blank 0a04.html'' (Error ''empty document''),
        ReportProgress 2 2, VaultCreate ''Notion/Child.md'' ''c'',
        ReportNoteSuccess ''Root 0a01/Child 0a02.html'']"
  by code_simp

lemma sample_twice_trace:
  "trace (snd (import sampleCollaborators (sample_importer [[sample_root], [sample_root]]) []))
     = [CreateFolders ''Notion/'', ReportProgress 1 1,
        VaultCreate ''Notion/Root.md'' ''r'',
        ReportNoteSuccess ''Root 0a01.html'', ReportProgress 2 1,
        VaultCreate ''Notion/Root.md'' ''r'',
        ReportFailed ''Root 0a01.html'' (Error ''File already exists.'')]"
  by code_simp


lemma sample_blank_try:
  "tryEntry sampleCollaborators ''Notion/'' [] sample_blank
      (report (ReportProgress (current sample_start + 1) 2)
         (sample_start\<lparr>current := current sample_start + 1\<rparr>))
     = (Inl (Error ''file info not found for Blank 0a04.html''),
        report (ReportProgress (current sample_start + 1) 2)
         (sample_start\<lparr>current := current sample_start + 1\<rparr>))"
  by code_simp

lemma sample_twice_progress:
  "ReportProgress 2 1 \<in> set (trace (snd (import sampleCollaborators
       (sample_importer [[sample_root], [sample_root]]) [])))"
  by (simp add: sample_twice_trace)


lemma sample_cycle_chain:
  "ancestorChain sample_cycleA sample_cycle = [(''0a02'', ''B/'')]"
  "ancestorChain sample_cycleB sample_cycle = [(''0a01'', ''A/'')]"
  by code_simp+

lemma sample_duplicates_resolved:
  "cleanDuplicates_spec samplePolicy [] ''Notion/'' False sample_duplicates = sample_resolved"
  "cleanDuplicates_spec samplePolicy [] ''Notion/'' True sample_duplicates = sample_nested"
  by code_simp+

lemma sample_planned_paths:
  "map (\<lambda>kv. plannedPath (snd kv)) (fst sample_resolved) = [''Root.md'', ''Root/Child.md'']"
  "map (\<lambda>kv. plannedPath (snd kv)) (fst sample_nested) = [''Root/Root.md'', ''Root/Child/Child.md'']"
  by code_simp+

lemma sample_nested_documents:
  "createdDocuments (trace (snd (import sampleCollaborators
       ((sample_importer [[sample_root, sample_child]])\<lparr>parentsInSubfolders := True\<rparr>) [])))
     = [''Notion/Root/Root.md'', ''Notion/Root/Child/Child.md'']"
  by code_simp


section \<open>The claims\<close>

text \<open>
  C2. \<open>assembleParentIds_spec\<close> is a total function: its walk is defined by a recursion that
  terminates on every mapping, cyclic ones included, since each step adds a key of the
  mapping to the visited ids. Its result holds one segment for each id of a chain in which no
  id occurs twice and the document's own id does not occur; each segment is the title of the
  document with that id followed by a slash; read from the parent upwards the chain follows
  the parent pointers; it is no longer than the mapping.
\<close>

theorem assembleParentIds_spec_does_not_loop:
  "assembleParentIds_spec document allDocuments = map snd (ancestorChain document allDocuments)
   \<and> distinct (map fst (ancestorChain document allDocuments))
   \<and> docId document \<notin> set (map fst (ancestorChain document allDocuments))
   \<and> list_all (segmentOf allDocuments) (ancestorChain document allDocuments)
   \<and> followsParents allDocuments (parentId document)
         (rev (map fst (ancestorChain document allDocuments)))
   \<and> length (assembleParentIds_spec document allDocuments) \<le> length allDocuments"
proof -
  let ?c = "ancestorChain document allDocuments"
  have inv: "distinct (map fst ?c)"
    "fst ` set ?c \<subseteq> fst ` set allDocuments - {docId document}"
    "list_all (segmentOf allDocuments) ?c"
    using ancestorWalk_invariant [of "[]" "[docId document]" allDocuments "parentId document"]
    by (simp_all add: ancestorChain_def)
  have "length ?c = card (fst ` set ?c)"
    using inv(1) by (metis distinct_card length_map set_map)
  also have "\<dots> \<le> card (fst ` set allDocuments)"
    using inv(2) by (intro card_mono) auto
  also have "\<dots> \<le> length allDocuments"
    by (metis card_length length_map set_map)
  finally have "length (assembleParentIds_spec document allDocuments) \<le> length allDocuments"
    by (simp add: assembleParentIds_spec_def)
  with inv ancestorChain_follows [of allDocuments document] show ?thesis
    by (auto simp: assembleParentIds_spec_def)
qed

theorem assembleParentIds_spec_does_not_loop_witness:
  "map_option parentId (map_of sample_cycle ''0a01'') = Some (Some ''0a02'')
   \<and> map_option parentId (map_of sample_cycle ''0a02'') = Some (Some ''0a01'')
   \<and> assembleParentIds_spec sample_cycleA sample_cycle = [''B/'']
   \<and> distinct (map fst (ancestorChain sample_cycleA sample_cycle))
   \<and> length (assembleParentIds_spec sample_cycleA sample_cycle) \<le> length sample_cycle"
proof -
  note t = assembleParentIds_spec_does_not_loop [of sample_cycleA sample_cycle]
  have p: "map_option parentId (map_of sample_cycle ''0a01'') = Some (Some ''0a02'')"
    "map_option parentId (map_of sample_cycle ''0a02'') = Some (Some ''0a01'')"
    by (simp_all add: sample_cycle_def sample_cycleA_def sample_cycleB_def)
  have a: "assembleParentIds_spec sample_cycleA sample_cycle = [''B/'']"
    using t [THEN conjunct1] by (simp add: sample_cycle_chain)
  from p a t show ?thesis by blast
qed

text \<open>
  C3. Duplicate resolution, as the specification describes it, is idempotent: for every
  pair of mappings, every policy, and both layouts, a second run on the mappings the first run
  produced returns them unchanged, the folder segments of the documents and the folders of the
  attachments included.
\<close>

theorem cleanDuplicates_spec_idempotent:
  "cleanDuplicates_spec pol attachmentFolderPath targetFolderPath inSubfolders
     (cleanDuplicates_spec pol attachmentFolderPath targetFolderPath inSubfolders
        (ids, atts))
   = cleanDuplicates_spec pol attachmentFolderPath targetFolderPath inSubfolders
       (ids, atts)"
  by (simp add: cleanDuplicates_spec_def cleanDocuments_idem cleanAttachments_idem)

theorem cleanDuplicates_spec_idempotent_witness:
  "cleanDuplicates_spec samplePolicy [] ''Notion/'' False sample_duplicates = sample_resolved
   \<and> sample_resolved \<noteq> sample_duplicates
   \<and> cleanDuplicates_spec samplePolicy [] ''Notion/'' False sample_resolved = sample_resolved
   \<and> map (\<lambda>kv. plannedPath (snd kv)) (fst sample_resolved) = [''Root.md'', ''Root/Child.md'']
   \<and> cleanDuplicates_spec samplePolicy [] ''Notion/'' True sample_duplicates = sample_nested
   \<and> cleanDuplicates_spec samplePolicy [] ''Notion/'' True sample_nested = sample_nested
   \<and> map (\<lambda>kv. plannedPath (snd kv)) (fst sample_nested)
        = [''Root/Root.md'', ''Root/Child/Child.md'']
   \<and> createdDocuments (trace (snd (import sampleCollaborators
         ((sample_importer [[sample_root, sample_child]])\<lparr>parentsInSubfolders := True\<rparr>) [])))
        = [''Notion/Root/Root.md'', ''Notion/Root/Child/Child.md'']"
proof -
  have "sample_resolved \<noteq> sample_duplicates"
    by (simp add: sample_resolved_def sample_duplicates_def)
  moreover note cleanDuplicates_spec_idempotent
      [of samplePolicy "[]" "''Notion/''" False "fst sample_duplicates" "snd sample_duplicates"]
    cleanDuplicates_spec_idempotent
      [of samplePolicy "[]" "''Notion/''" True "fst sample_duplicates" "snd sample_duplicates"]
  ultimately show ?thesis
    by (simp add: sample_duplicates_resolved sample_planned_paths sample_nested_documents)
qed




text \<open>
  C5. Every document written in the second pass is written at the target folder path,
  which ends with a slash (it is the normalised path of the output folder, with a slash
  appended unless it ends with one), followed by the joined segments \<open>assembleParentIds\<close> returns
  for the document, its title and \<^verbatim>\<open>.md\<close>: for a whole run, every path passed to
  \<^verbatim>\<open>vault.create\<close> is that path of a document of the mapping; for one entry, it is
  that path of the document the id of the entry's name is mapped to.
\<close>

theorem document_destination_path:
  "(files this \<noteq> [] \<and> outputFolder this = Some folderPath \<longrightarrow>
      set (createdDocuments (trace (snd (import d this w))))
        \<subseteq> (\<lambda>fileInfo. targetFolderPathOf d folderPath
                @ concat (assembleParentIds d fileInfo (idsToFileInfo (snd (import d this w))))
                @ title fileInfo @ ''.md'')
            ` set (values_of (idsToFileInfo (snd (import d this w)))))
   \<and> endsWith (targetFolderPathOf d folderPath) ''/''
   \<and> targetFolderPathOf d folderPath
        = (if endsWith (normalizePath d folderPath) ''/'' then normalizePath d folderPath
           else normalizePath d folderPath @ ''/'')
   \<and> set (createdDocuments (emitted s (snd (convertDocument d t a file s))))
        \<subseteq> (case getNotionId d (name file) of
              None \<Rightarrow> {}
            | Some i \<Rightarrow> (case map_of (idsToFileInfo s) i of
                 None \<Rightarrow> {}
               | Some fileInfo \<Rightarrow>
                   {t @ concat (assembleParentIds d fileInfo (idsToFileInfo s))
                      @ title fileInfo @ ''.md''}))"
proof -
  have "documentPath d (targetFolderPathOf d folderPath)
              (idsToFileInfo (snd (import d this w)))
     = (\<lambda>fileInfo. targetFolderPathOf d folderPath
                @ concat (assembleParentIds d fileInfo (idsToFileInfo (snd (import d this w))))
                @ title fileInfo @ ''.md'')"
    by (auto simp: documentPath_def)
  moreover have "set (createdDocuments (trace (snd (import d this w))))
        \<subseteq> documentPath d (targetFolderPathOf d folderPath)
              (idsToFileInfo (snd (import d this w)))
            ` set (values_of (idsToFileInfo (snd (import d this w))))"
    if "files this \<noteq> []" "outputFolder this = Some folderPath"
    using import_structure(3) [OF that, of d w]
    by (auto simp: createdDocuments_append createdDocuments_skips createdDocuments_folders)
  ultimately have run: "files this \<noteq> [] \<and> outputFolder this = Some folderPath \<longrightarrow>
      set (createdDocuments (trace (snd (import d this w))))
        \<subseteq> (\<lambda>fileInfo. targetFolderPathOf d folderPath
                @ concat (assembleParentIds d fileInfo (idsToFileInfo (snd (import d this w))))
                @ title fileInfo @ ''.md'')
            ` set (values_of (idsToFileInfo (snd (import d this w))))"
    by simp
  have root: "targetFolderPathOf d folderPath
        = (if endsWith (normalizePath d folderPath) ''/'' then normalizePath d folderPath
           else normalizePath d folderPath @ ''/'')"
    by (simp add: targetFolderPathOf_def Let_def)
  note step = convertDocument_paths [of s d t a "file", unfolded documentPath_def]
  from run endsWith_slash [of d folderPath] root step show ?thesis
    by - (intro conjI, assumption+)
qed

theorem document_destination_path_witness:
  "files (sample_importer [[sample_root, sample_child]]) \<noteq> []
   \<and> outputFolder (sample_importer [[sample_root, sample_child]]) = Some ''Notion''
   \<and> set (createdDocuments (trace (snd (import sampleCollaborators
             (sample_importer [[sample_root, sample_child]]) []))))
        \<subseteq> (\<lambda>fileInfo. targetFolderPathOf sampleCollaborators ''Notion''
                @ concat (assembleParentIds sampleCollaborators fileInfo
                     (idsToFileInfo (snd (import sampleCollaborators
                         (sample_importer [[sample_root, sample_child]]) []))))
                @ title fileInfo @ ''.md'')
            ` set (values_of (idsToFileInfo (snd (import sampleCollaborators
                         (sample_importer [[sample_root, sample_child]]) []))))
   \<and> createdDocuments (trace (snd (import sampleCollaborators
             (sample_importer [[sample_root, sample_child]]) [])))
        = [''Notion/Root.md'', ''Notion/Root/Child.md'']"
proof -
  have h: "files (sample_importer [[sample_root, sample_child]]) \<noteq> []
     \<and> outputFolder (sample_importer [[sample_root, sample_child]]) = Some ''Notion''"
    by (simp add: sample_importer_def)
  note c = document_destination_path
      [where this = "sample_importer [[sample_root, sample_child]]" and folderPath = "''Notion''"
         and d = sampleCollaborators and w = "[]", THEN conjunct1, THEN mp, OF h]
  from h c sample_pages_documents show ?thesis
    by - (elim conjE, intro conjI, assumption+)
qed

text \<open>
  C6. A step of the second pass never throws. When the body of its \<^verbatim>\<open>try\<close> block
  throws \<open>e\<close>, the step reports the entry's filepath as failed with \<open>e\<close>, and that is
  the only failure it reports; when the body completes, it reports no failure. The second
  pass runs the step on every entry that is not a database export, whatever the earlier
  steps did, and \<open>import\<close> returns normally with the counter at the number of those
  entries.
\<close>

theorem failed_entry_is_reported_and_import_continues:
  "fst (importEntry d t n a entry s) = Inr ()
   \<and> (tryEntry d t a entry (report (ReportProgress (current s + 1) n) (s\<lparr>current := current s + 1\<rparr>))
         = (Inl e, s3)
       \<longrightarrow> snd (importEntry d t n a entry s) = report (ReportFailed (filepath entry) e) s3
         \<and> filter isFailed (emitted s (snd (importEntry d t n a entry s)))
             = [ReportFailed (filepath entry) e])
   \<and> (tryEntry d t a entry (report (ReportProgress (current s + 1) n) (s\<lparr>current := current s + 1\<rparr>))
         = (Inr u, s3)
       \<longrightarrow> filter isFailed (emitted s (snd (importEntry d t n a entry s))) = [])
   \<and> convert d this t n s'
       = (Inr (), fold (\<lambda>f s. snd (importEntry d t n (keys_of (pathsToAttachmentInfo s')) f s))
                    (entriesToProcess d (files this)) (s'\<lparr>current := 0\<rparr>))
   \<and> fst (import d this w) = Inr ()
   \<and> (files this \<noteq> [] \<and> outputFolder this = Some folderPath
       \<longrightarrow> current (snd (import d this w)) = length (entriesToProcess d (files this)))"
  using importEntry_ok [of d t n a entry s]
        importEntry_shape(1) [of d t a entry s n "Inl e" s3]
        importEntry_failed [of d t a entry s n "Inl e" s3]
        importEntry_failed [of d t a entry s n "Inr u" s3]
        convert_fold [of d this t n s'] import_ok [of d this w]
        import_structure(2) [of this folderPath d w]
  by simp

theorem failed_entry_is_reported_and_import_continues_witness:
  "tryEntry sampleCollaborators ''Notion/'' [] sample_blank
      (report (ReportProgress (current sample_start + 1) 2)
         (sample_start\<lparr>current := current sample_start + 1\<rparr>))
     = (Inl (Error ''file info not found for Blank 0a04.html''),
        report (ReportProgress (current sample_start + 1) 2)
         (sample_start\<lparr>current := current sample_start + 1\<rparr>))
   \<and> filter isFailed (emitted sample_start
         (snd (importEntry sampleCollaborators ''Notion/'' 2 [] sample_blank sample_start)))
       = [ReportFailed (filepath sample_blank) (Error ''file info not found for Blank 0a04.html'')]
   \<and> files (sample_importer [[sample_blank, sample_child]]) \<noteq> []
   \<and> outputFolder (sample_importer [[sample_blank, sample_child]]) = Some ''Notion''
   \<and> current (snd (import sampleCollaborators
         (sample_importer [[sample_blank, sample_child]]) []))
       = length (entriesToProcess sampleCollaborators
                   (files (sample_importer [[sample_blank, sample_child]])))
   \<and> trace (snd (import sampleCollaborators (sample_importer [[sample_blank, sample_child]]) []))
     = [CreateFolders ''Notion/'', ReportProgress 1 2,
        ReportFailed ''Blank 0a04.html'' (Error ''empty document''),
        ReportProgress 2 2, VaultCreate ''Notion/Child.md'' ''c'',
        ReportNoteSuccess ''Root 0a01/Child 0a02.html'']"
proof -
  have h: "files (sample_importer [[sample_blank, sample_child]]) \<noteq> []
     \<and> outputFolder (sample_importer [[sample_blank, sample_child]]) = Some ''Notion''"
    by (simp add: sample_importer_def)
  note t = failed_entry_is_reported_and_import_continues
      [where d = sampleCollaborators and t = "''Notion/''" and n = 2 and a = "[]"
         and entry = sample_blank and s = sample_start
         and e = "Error ''file info not found for Blank 0a04.html''"
         and ?s3.0 = "report (ReportProgress (current sample_start + 1) 2)
             (sample_start\<lparr>current := current sample_start + 1\<rparr>)"
         and this = "sample_importer [[sample_blank, sample_child]]" and w = "[]"
         and folderPath = "''Notion''" and u = "()" and s' = sample_start]
  note failed = t [THEN conjunct2, THEN conjunct1, THEN mp, OF sample_blank_try]
  note all = t [THEN conjunct2, THEN conjunct2, THEN conjunct2, THEN conjunct2, THEN conjunct2,
                THEN mp, OF h]
  show ?thesis
    using sample_blank_try failed [THEN conjunct2] h [THEN conjunct1] h [THEN conjunct2] all
      sample_blank_trace
    by (intro conjI) assumption+
qed




text \<open>
  C8. In both passes the callback is invoked on an entry exactly when the entry is not a
  database export, and an entry is a database export exactly when its filepath ends with
  \<^verbatim>\<open>.csv\<close> and a Notion id is extractable from the filepath. \<open>processZips\<close> is
  the invocation of the callback, in archive order, on the entries that are not database
  exports; with a callback that records its argument the record is that list; both passes
  run their callback on every such entry; an entry without an extractable id is among them.
\<close>

theorem processZips_skips_database_exports:
  "processZips d zips callback s
     = invokeEach callback
         (filter (\<lambda>file. \<not> (endsWith (filepath file) ''.csv''
                            \<and> truthy (getNotionId d (filepath file)))) (concat zips)) s
   \<and> processZips d zips (\<lambda>file log. (Inr (), log @ [file])) []
     = (Inr (), filter (\<lambda>file. \<not> isDatabaseCSV d (filepath file)) (concat zips))
   \<and> scan d this w
     = (Inr (), fold (\<lambda>file s. snd (scanEntry d
                        (case attachmentFolderConfig this of None \<Rightarrow> [] | Some p \<Rightarrow> p) file s))
                  (filter (\<lambda>file. \<not> isDatabaseCSV d (filepath file)) (concat (files this)))
                  (initialRun w))
   \<and> convert d this t n s'
     = (Inr (), fold (\<lambda>file s. snd (importEntry d t n (keys_of (pathsToAttachmentInfo s')) file s))
                  (filter (\<lambda>file. \<not> isDatabaseCSV d (filepath file)) (concat (files this)))
                  (s'\<lparr>current := 0\<rparr>))
   \<and> (file \<in> set (concat zips) \<and> \<not> truthy (getNotionId d (filepath file))
        \<longrightarrow> file \<in> set (entriesToProcess d zips))"
proof -
  have "processZips d zips callback s = invokeEach callback (entriesToProcess d zips) s"
    by (rule processZips_invokeEach)
  moreover have "processZips d zips (\<lambda>file log. (Inr (), log @ [file])) []
      = (Inr (), entriesToProcess d zips)"
    by (simp add: processZips_invokeEach invokeEach_log)
  moreover note scan_fold [of d this w] convert_fold [of d this t n s']
  ultimately show ?thesis
    by (simp add: entriesToProcess_def isDatabaseCSV_def)
qed

theorem processZips_skips_database_exports_witness:
  "sample_sheet \<in> set (concat [[sample_root, sample_database], [sample_sheet, sample_picture]])
   \<and> \<not> truthy (getNotionId sampleCollaborators (filepath sample_sheet))
   \<and> sample_sheet \<in> set (entriesToProcess sampleCollaborators
         [[sample_root, sample_database], [sample_sheet, sample_picture]])
   \<and> processZips sampleCollaborators [[sample_root, sample_database], [sample_sheet, sample_picture]]
        (\<lambda>file log. (Inr (), log @ [file])) []
      = (Inr (), [sample_root, sample_sheet, sample_picture])"
  using processZips_skips_database_exports
          [of sampleCollaborators "[[sample_root, sample_database], [sample_sheet, sample_picture]]"
              "\<lambda>file log. (Inr (), log @ [file])" "[]" _ _ _ _ _ sample_sheet]
        sample_csv
  by (simp add: sampleCollaborators_def sample_getNotionId_def sample_sheet_def truthy_def
        stripExtension_def isHexDigit_def Let_def)

text \<open>
  C9. A step of the second pass on an entry whose extension is \<^verbatim>\<open>html\<close> is the
  conversion of a document, and causes no attachment event; on any other entry it is the copy
  of an attachment, and causes no document event. The step is given here case by case, by
  the events it adds and the vault it leaves.

  For an \<^verbatim>\<open>html\<close> entry: a name without an id, and an id without an entry in
  \<open>idsToFileInfo\<close>, are reported as failed and nothing else happens; with a
  \<open>NotionFileInfo\<close> the entry is converted, the document is created at its destination
  path with the converted body, its front matter is written when there are properties, and
  the note is reported; a failure of the conversion, of the creation or of the front matter
  is reported as the failure of the entry.

  Another entry is looked up in \<open>pathsToAttachmentInfo\<close> by its filepath. With an
  \<open>NotionAttachmentInfo\<close> of its own its bytes are written at the normalised
  \<open>targetParentFolder\<close> followed by \<open>nameWithExtension\<close> and the attachment is
  reported; a failure to read or to write is reported as the failure of the entry; when the
  lookup finds nothing the entry is reported as failed. A filepath without an own entry that
  names a property of \<^verbatim>\<open>Object.prototype\<close> finds the inherited value: the bytes
  are written at the normalised text \<^verbatim>\<open>undefinedundefined\<close>.
\<close>

theorem second_pass_classification:
  "trace (snd (importEntry d t n a entry s)) = trace s @ emitted s (snd (importEntry d t n a entry s))
   \<and> current (snd (importEntry d t n a entry s)) = current s + 1
   \<and> idsToFileInfo (snd (importEntry d t n a entry s)) = idsToFileInfo s
   \<and> pathsToAttachmentInfo (snd (importEntry d t n a entry s)) = pathsToAttachmentInfo s
   \<and> (extension entry = ''html'' \<longrightarrow>
      list_all (\<lambda>e. \<not> isAttachmentEvent e) (emitted s (snd (importEntry d t n a entry s))))
   \<and> (extension entry \<noteq> ''html'' \<longrightarrow>
      list_all (\<lambda>e. \<not> isDocumentEvent e) (emitted s (snd (importEntry d t n a entry s))))
   \<and> (extension entry = ''html'' \<and> \<not> truthy (getNotionId d (name entry)) \<longrightarrow>
      emitted s (snd (importEntry d t n a entry s))
        = [ReportProgress (current s + 1) n,
           ReportFailed (filepath entry) (Error (''ids not found for '' @ filepath entry))]
      \<and> world (snd (importEntry d t n a entry s)) = world s)
   \<and> (extension entry = ''html'' \<and> getNotionId d (name entry) = Some i \<and> i \<noteq> []
        \<and> getProperty (idsToFileInfo s) i = Undefined \<longrightarrow>
      emitted s (snd (importEntry d t n a entry s))
        = [ReportProgress (current s + 1) n,
           ReportFailed (filepath entry) (Error (''file info not found for '' @ filepath entry))]
      \<and> world (snd (importEntry d t n a entry s)) = world s)
   \<and> (extension entry = ''html'' \<and> getNotionId d (name entry) = Some i \<and> i \<noteq> []
        \<and> map_of (idsToFileInfo s) i = Some fileInfo
        \<and> readToMarkdown d entry a (idsToFileInfo s, pathsToAttachmentInfo s) = Inl e \<longrightarrow>
      emitted s (snd (importEntry d t n a entry s))
        = [ReportProgress (current s + 1) n,
           ReportFailed (filepath entry) e]
      \<and> world (snd (importEntry d t n a entry s)) = world s)
   \<and> (extension entry = ''html'' \<and> getNotionId d (name entry) = Some i \<and> i \<noteq> []
        \<and> map_of (idsToFileInfo s) i = Some fileInfo
        \<and> readToMarkdown d entry a (idsToFileInfo s, pathsToAttachmentInfo s)
              = Inr (markdownBody, properties)
        \<and> vaultCreate d (documentPath d t (idsToFileInfo s) fileInfo)
             markdownBody (world s) = (Some e, w') \<longrightarrow>
      emitted s (snd (importEntry d t n a entry s))
        = [ReportProgress (current s + 1) n,
           VaultCreate (documentPath d t (idsToFileInfo s) fileInfo) markdownBody,
           ReportFailed (filepath entry) e]
      \<and> world (snd (importEntry d t n a entry s)) = w')
   \<and> (extension entry = ''html'' \<and> getNotionId d (name entry) = Some i \<and> i \<noteq> []
        \<and> map_of (idsToFileInfo s) i = Some fileInfo
        \<and> readToMarkdown d entry a (idsToFileInfo s, pathsToAttachmentInfo s)
              = Inr (markdownBody, [])
        \<and> vaultCreate d (documentPath d t (idsToFileInfo s) fileInfo)
             markdownBody (world s) = (None, w') \<longrightarrow>
      emitted s (snd (importEntry d t n a entry s))
        = [ReportProgress (current s + 1) n,
           VaultCreate (documentPath d t (idsToFileInfo s) fileInfo) markdownBody,
           ReportNoteSuccess (filepath entry)]
      \<and> world (snd (importEntry d t n a entry s)) = w')
   \<and> (extension entry = ''html'' \<and> getNotionId d (name entry) = Some i \<and> i \<noteq> []
        \<and> map_of (idsToFileInfo s) i = Some fileInfo
        \<and> readToMarkdown d entry a (idsToFileInfo s, pathsToAttachmentInfo s)
              = Inr (markdownBody, properties)
        \<and> vaultCreate d (documentPath d t (idsToFileInfo s) fileInfo)
             markdownBody (world s) = (None, w')
        \<and> properties \<noteq> []
        \<and> processFrontMatter d (documentPath d t (idsToFileInfo s) fileInfo)
             properties w' = (Some e, w'') \<longrightarrow>
      emitted s (snd (importEntry d t n a entry s))
        = [ReportProgress (current s + 1) n,
           VaultCreate (documentPath d t (idsToFileInfo s) fileInfo) markdownBody,
           ProcessFrontMatter (documentPath d t (idsToFileInfo s) fileInfo) properties,
           ReportFailed (filepath entry) e]
      \<and> world (snd (importEntry d t n a entry s)) = w'')
   \<and> (extension entry = ''html'' \<and> getNotionId d (name entry) = Some i \<and> i \<noteq> []
        \<and> map_of (idsToFileInfo s) i = Some fileInfo
        \<and> readToMarkdown d entry a (idsToFileInfo s, pathsToAttachmentInfo s)
              = Inr (markdownBody, properties)
        \<and> vaultCreate d (documentPath d t (idsToFileInfo s) fileInfo)
             markdownBody (world s) = (None, w')
        \<and> properties \<noteq> []
        \<and> processFrontMatter d (documentPath d t (idsToFileInfo s) fileInfo)
             properties w' = (None, w'') \<longrightarrow>
      emitted s (snd (importEntry d t n a entry s))
        = [ReportProgress (current s + 1) n,
           VaultCreate (documentPath d t (idsToFileInfo s) fileInfo) markdownBody,
           ProcessFrontMatter (documentPath d t (idsToFileInfo s) fileInfo) properties,
           ReportNoteSuccess (filepath entry)]
      \<and> world (snd (importEntry d t n a entry s)) = w'')
   \<and> documentPath d t (idsToFileInfo s) fileInfo
       = t @ concat (assembleParentIds d fileInfo (idsToFileInfo s)) @ title fileInfo @ ''.md''
   \<and> (map_of (pathsToAttachmentInfo s) (filepath entry) = Some attachmentInfo \<longrightarrow>
      attachmentTarget d (getProperty (pathsToAttachmentInfo s) (filepath entry))
        = Some (normalizePath d (targetParentFolder attachmentInfo
                                   @ nameWithExtension attachmentInfo)))
   \<and> (map_of (pathsToAttachmentInfo s) (filepath entry) = None
        \<and> filepath entry \<in> set objectPrototypeKeys \<longrightarrow>
      attachmentTarget d (getProperty (pathsToAttachmentInfo s) (filepath entry))
        = Some (normalizePath d ''undefinedundefined''))
   \<and> (map_of (pathsToAttachmentInfo s) (filepath entry) = None
        \<and> filepath entry \<notin> set objectPrototypeKeys \<longrightarrow>
      getProperty (pathsToAttachmentInfo s) (filepath entry) = Undefined)
   \<and> (extension entry \<noteq> ''html''
        \<and> getProperty (pathsToAttachmentInfo s) (filepath entry) = Undefined \<longrightarrow>
      emitted s (snd (importEntry d t n a entry s))
        = [ReportProgress (current s + 1) n,
           ReportFailed (filepath entry) (Error (''attachment info not found for '' @ filepath entry))]
      \<and> world (snd (importEntry d t n a entry s)) = world s)
   \<and> (extension entry \<noteq> ''html''
        \<and> attachmentTarget d (getProperty (pathsToAttachmentInfo s) (filepath entry)) = Some path
        \<and> fileRead d entry = Inl e \<longrightarrow>
      emitted s (snd (importEntry d t n a entry s))
        = [ReportProgress (current s + 1) n,
           ReportFailed (filepath entry) e]
      \<and> world (snd (importEntry d t n a entry s)) = world s)
   \<and> (extension entry \<noteq> ''html''
        \<and> attachmentTarget d (getProperty (pathsToAttachmentInfo s) (filepath entry)) = Some path
        \<and> fileRead d entry = Inr data
        \<and> writeBinary d path data (world s) = (Some e, w') \<longrightarrow>
      emitted s (snd (importEntry d t n a entry s))
        = [ReportProgress (current s + 1) n,
           WriteBinary path data,
           ReportFailed (filepath entry) e]
      \<and> world (snd (importEntry d t n a entry s)) = w')
   \<and> (extension entry \<noteq> ''html''
        \<and> attachmentTarget d (getProperty (pathsToAttachmentInfo s) (filepath entry)) = Some path
        \<and> fileRead d entry = Inr data
        \<and> writeBinary d path data (world s) = (None, w') \<longrightarrow>
      emitted s (snd (importEntry d t n a entry s))
        = [ReportProgress (current s + 1) n,
           WriteBinary path data,
           ReportAttachmentSuccess (filepath entry)]
      \<and> world (snd (importEntry d t n a entry s)) = w')"
  by (intro conjI) (rule importEntry_cases)+

theorem second_pass_classification_witness:
  "extension sample_root = ''html'' \<and> getNotionId sampleCollaborators (name sample_root) = Some ''0a01'' \<and> ''0a01'' \<noteq> []
        \<and> map_of (idsToFileInfo sample_planned) ''0a01'' = Some sample_rootInfo
        \<and> readToMarkdown sampleCollaborators sample_root [] (idsToFileInfo sample_planned, pathsToAttachmentInfo sample_planned)
              = Inr (''r'', [])
        \<and> vaultCreate sampleCollaborators (documentPath sampleCollaborators ''Notion/'' (idsToFileInfo sample_planned) sample_rootInfo)
             ''r'' (world sample_planned) = (None, [''Notion/Root.md''])
   \<and> emitted sample_planned (snd (importEntry sampleCollaborators ''Notion/'' 3 [] sample_root sample_planned))
        = [ReportProgress (current sample_planned + 1) 3,
           VaultCreate (documentPath sampleCollaborators ''Notion/'' (idsToFileInfo sample_planned) sample_rootInfo) ''r'',
           ReportNoteSuccess (filepath sample_root)]
      \<and> world (snd (importEntry sampleCollaborators ''Notion/'' 3 [] sample_root sample_planned)) = [''Notion/Root.md'']
   \<and> extension sample_index = ''html'' \<and> \<not> truthy (getNotionId sampleCollaborators (name sample_index))
   \<and> emitted sample_start (snd (importEntry sampleCollaborators ''Notion/'' 3 [] sample_index sample_start))
        = [ReportProgress (current sample_start + 1) 3,
           ReportFailed (filepath sample_index) (Error (''ids not found for '' @ filepath sample_index))]
      \<and> world (snd (importEntry sampleCollaborators ''Notion/'' 3 [] sample_index sample_start)) = world sample_start
   \<and> extension sample_root = ''html'' \<and> getNotionId sampleCollaborators (name sample_root) = Some ''0a01'' \<and> ''0a01'' \<noteq> []
        \<and> getProperty (idsToFileInfo sample_start) ''0a01'' = Undefined
   \<and> emitted sample_start (snd (importEntry sampleCollaborators ''Notion/'' 3 [] sample_root sample_start))
        = [ReportProgress (current sample_start + 1) 3,
           ReportFailed (filepath sample_root) (Error (''file info not found for '' @ filepath sample_root))]
      \<and> world (snd (importEntry sampleCollaborators ''Notion/'' 3 [] sample_root sample_start)) = world sample_start
   \<and> extension sample_picture \<noteq> ''html''
        \<and> getProperty (pathsToAttachmentInfo sample_start) (filepath sample_picture) = Undefined
   \<and> emitted sample_start (snd (importEntry sampleCollaborators ''Notion/'' 3 [] sample_picture sample_start))
        = [ReportProgress (current sample_start + 1) 3,
           ReportFailed (filepath sample_picture) (Error (''attachment info not found for '' @ filepath sample_picture))]
      \<and> world (snd (importEntry sampleCollaborators ''Notion/'' 3 [] sample_picture sample_start)) = world sample_start
   \<and> extension sample_picture \<noteq> ''html''
        \<and> attachmentTarget sampleCollaborators (getProperty (pathsToAttachmentInfo sample_scanned) (filepath sample_picture)) = Some ''Notion/pic.png''
        \<and> fileRead sampleCollaborators sample_picture = Inr ''png''
        \<and> writeBinary sampleCollaborators ''Notion/pic.png'' ''png'' (world sample_scanned) = (None, [''Notion/pic.png''])
   \<and> emitted sample_scanned (snd (importEntry sampleCollaborators ''Notion/'' 3 [] sample_picture sample_scanned))
        = [ReportProgress (current sample_scanned + 1) 3,
           WriteBinary ''Notion/pic.png'' ''png'',
           ReportAttachmentSuccess (filepath sample_picture)]
      \<and> world (snd (importEntry sampleCollaborators ''Notion/'' 3 [] sample_picture sample_scanned)) = [''Notion/pic.png'']
   \<and> extension sample_constructor \<noteq> ''html''
        \<and> attachmentTarget sampleCollaborators (getProperty (pathsToAttachmentInfo sample_start) (filepath sample_constructor)) = Some ''undefinedundefined''
        \<and> fileRead sampleCollaborators sample_constructor = Inr ''x''
        \<and> writeBinary sampleCollaborators ''undefinedundefined'' ''x'' (world sample_start) = (None, [''undefinedundefined''])
   \<and> emitted sample_start (snd (importEntry sampleCollaborators ''Notion/'' 3 [] sample_constructor sample_start))
        = [ReportProgress (current sample_start + 1) 3,
           WriteBinary ''undefinedundefined'' ''x'',
           ReportAttachmentSuccess (filepath sample_constructor)]
      \<and> world (snd (importEntry sampleCollaborators ''Notion/'' 3 [] sample_constructor sample_start)) = [''undefinedundefined'']
   \<and> map_of (pathsToAttachmentInfo sample_start) (filepath sample_constructor) = None
        \<and> filepath sample_constructor \<in> set objectPrototypeKeys
   \<and> attachmentTarget sampleCollaborators (getProperty (pathsToAttachmentInfo sample_start) (filepath sample_constructor))
        = Some (normalizePath sampleCollaborators ''undefinedundefined'')"
proof -
  have h0: "extension sample_root = ''html'' \<and> getNotionId sampleCollaborators (name sample_root) = Some ''0a01'' \<and> ''0a01'' \<noteq> []
        \<and> map_of (idsToFileInfo sample_planned) ''0a01'' = Some sample_rootInfo
        \<and> readToMarkdown sampleCollaborators sample_root [] (idsToFileInfo sample_planned, pathsToAttachmentInfo sample_planned)
              = Inr (''r'', [])
        \<and> vaultCreate sampleCollaborators (documentPath sampleCollaborators ''Notion/'' (idsToFileInfo sample_planned) sample_rootInfo)
             ''r'' (world sample_planned) = (None, [''Notion/Root.md''])"
    by code_simp
  have h1: "extension sample_index = ''html'' \<and> \<not> truthy (getNotionId sampleCollaborators (name sample_index))"
    by code_simp
  have h2: "extension sample_root = ''html'' \<and> getNotionId sampleCollaborators (name sample_root) = Some ''0a01'' \<and> ''0a01'' \<noteq> []
        \<and> getProperty (idsToFileInfo sample_start) ''0a01'' = Undefined"
    by code_simp
  have h3: "extension sample_picture \<noteq> ''html''
        \<and> getProperty (pathsToAttachmentInfo sample_start) (filepath sample_picture) = Undefined"
    by code_simp
  have h4: "extension sample_picture \<noteq> ''html''
        \<and> attachmentTarget sampleCollaborators (getProperty (pathsToAttachmentInfo sample_scanned) (filepath sample_picture)) = Some ''Notion/pic.png''
        \<and> fileRead sampleCollaborators sample_picture = Inr ''png''
        \<and> writeBinary sampleCollaborators ''Notion/pic.png'' ''png'' (world sample_scanned) = (None, [''Notion/pic.png''])"
    by code_simp
  have h5: "extension sample_constructor \<noteq> ''html''
        \<and> attachmentTarget sampleCollaborators (getProperty (pathsToAttachmentInfo sample_start) (filepath sample_constructor)) = Some ''undefinedundefined''
        \<and> fileRead sampleCollaborators sample_constructor = Inr ''x''
        \<and> writeBinary sampleCollaborators ''undefinedundefined'' ''x'' (world sample_start) = (None, [''undefinedundefined''])"
    by code_simp
  have h6: "map_of (pathsToAttachmentInfo sample_start) (filepath sample_constructor) = None
        \<and> filepath sample_constructor \<in> set objectPrototypeKeys"
    by code_simp
  note c0 = second_pass_classification
      [where entry = sample_root and s = sample_planned and d = sampleCollaborators
         and t = "''Notion/''" and n = 3 and a = "[]"
         and i = "''0a01''"
         and fileInfo = "sample_rootInfo"
         and markdownBody = "''r''"
         and ?w' = "[''Notion/Root.md'']",
       THEN conjunct2, THEN conjunct2, THEN conjunct2, THEN conjunct2, THEN conjunct2, THEN conjunct2, THEN conjunct2, THEN conjunct2, THEN conjunct2, THEN conjunct2, THEN conjunct1, THEN mp, OF h0]
  note c1 = second_pass_classification
      [where entry = sample_index and s = sample_start and d = sampleCollaborators
         and t = "''Notion/''" and n = 3 and a = "[]",
       THEN conjunct2, THEN conjunct2, THEN conjunct2, THEN conjunct2, THEN conjunct2, THEN conjunct2, THEN conjunct1, THEN mp, OF h1]
  note c2 = second_pass_classification
      [where entry = sample_root and s = sample_start and d = sampleCollaborators
         and t = "''Notion/''" and n = 3 and a = "[]"
         and i = "''0a01''",
       THEN conjunct2, THEN conjunct2, THEN conjunct2, THEN conjunct2, THEN conjunct2, THEN conjunct2, THEN conjunct2, THEN conjunct1, THEN mp, OF h2]
  note c3 = second_pass_classification
      [where entry = sample_picture and s = sample_start and d = sampleCollaborators
         and t = "''Notion/''" and n = 3 and a = "[]",
       THEN conjunct2, THEN conjunct2, THEN conjunct2, THEN conjunct2, THEN conjunct2, THEN conjunct2, THEN conjunct2, THEN conjunct2, THEN conjunct2, THEN conjunct2, THEN conjunct2, THEN conjunct2, THEN conjunct2, THEN conjunct2, THEN conjunct2, THEN conjunct2, THEN conjunct2, THEN conjunct1, THEN mp, OF h3]
  note c4 = second_pass_classification
      [where entry = sample_picture and s = sample_scanned and d = sampleCollaborators
         and t = "''Notion/''" and n = 3 and a = "[]"
         and path = "''Notion/pic.png''"
         and data = "''png''"
         and ?w' = "[''Notion/pic.png'']",
       THEN conjunct2, THEN conjunct2, THEN conjunct2, THEN conjunct2, THEN conjunct2, THEN conjunct2, THEN conjunct2, THEN conjunct2, THEN conjunct2, THEN conjunct2, THEN conjunct2, THEN conjunct2, THEN conjunct2, THEN conjunct2, THEN conjunct2, THEN conjunct2, THEN conjunct2, THEN conjunct2, THEN conjunct2, THEN conjunct2, THEN mp, OF h4]
  note c5 = second_pass_classification
      [where entry = sample_constructor and s = sample_start and d = sampleCollaborators
         and t = "''Notion/''" and n = 3 and a = "[]"
         and path = "''undefinedundefined''"
         and data = "''x''"
         and ?w' = "[''undefinedundefined'']",
       THEN conjunct2, THEN conjunct2, THEN conjunct2, THEN conjunct2, THEN conjunct2, THEN conjunct2, THEN conjunct2, THEN conjunct2, THEN conjunct2, THEN conjunct2, THEN conjunct2, THEN conjunct2, THEN conjunct2, THEN conjunct2, THEN conjunct2, THEN conjunct2, THEN conjunct2, THEN conjunct2, THEN conjunct2, THEN conjunct2, THEN mp, OF h5]
  note c6 = second_pass_classification
      [where entry = sample_constructor and s = sample_start and d = sampleCollaborators
         and t = "''Notion/''" and n = 3 and a = "[]",
       THEN conjunct2, THEN conjunct2, THEN conjunct2, THEN conjunct2, THEN conjunct2, THEN conjunct2, THEN conjunct2, THEN conjunct2, THEN conjunct2, THEN conjunct2, THEN conjunct2, THEN conjunct2, THEN conjunct2, THEN conjunct2, THEN conjunct2, THEN conjunct1, THEN mp, OF h6]
  from h0 c0 h1 c1 h2 c2 h3 c3 h4 c4 h5 c5 h6 c6 show ?thesis
    by - (elim conjE, intro conjI, assumption+)
qed

text \<open>
  C10. The progress reports of a run are \<open>ReportProgress k total\<close> for \<open>k\<close> from 1 to
  the number of entries that are not database exports, in this order, where \<open>total\<close> is
  the number of keys of \<open>idsToFileInfo\<close> plus that of \<open>pathsToAttachmentInfo\<close> in
  the state the scan leaves, before duplicate resolution. The report of an entry is the first
  event of its step, and the step reports progress once. Two entries that share one document
  id give a run in which the counter exceeds the total.
\<close>

theorem progress_is_reported_per_entry:
  "(files this \<noteq> [] \<and> outputFolder this = Some folderPath \<longrightarrow>
      filter isProgress (trace (snd (import d this w)))
        = map (\<lambda>k. ReportProgress k
                 (length (keys_of (idsToFileInfo (snd (scan d this w))))
                  + length (keys_of (pathsToAttachmentInfo (snd (scan d this w))))))
            [1 ..< length (entriesToProcess d (files this)) + 1])
   \<and> (\<exists>evs. emitted s (snd (importEntry d t n a entry s)) = ReportProgress (current s + 1) n # evs
          \<and> list_all (\<lambda>e. \<not> isProgress e) evs)
   \<and> distinct (keys_of (idsToFileInfo (snd (scan d this w))))
   \<and> distinct (keys_of (pathsToAttachmentInfo (snd (scan d this w))))
   \<and> (\<exists>k m. ReportProgress k m
                \<in> set (trace (snd (import sampleCollaborators
                           (sample_importer [[sample_root], [sample_root]]) [])))
            \<and> m < k)"
proof -
  have "filter isProgress (trace (snd (import d this w)))
        = map (\<lambda>k. ReportProgress k
                 (length (keys_of (idsToFileInfo (snd (scan d this w))))
                  + length (keys_of (pathsToAttachmentInfo (snd (scan d this w))))))
            [1 ..< length (entriesToProcess d (files this)) + 1]"
    if "files this \<noteq> []" "outputFolder this = Some folderPath"
    using import_events(3) [OF that, of d w] by (simp only: totalOf_def)
  moreover have "\<exists>evs. emitted s (snd (importEntry d t n a entry s)) = ReportProgress (current s + 1) n # evs
          \<and> list_all (\<lambda>e. \<not> isProgress e) evs"
  proof -
    obtain evs where "trace (snd (importEntry d t n a entry s)) = trace s @ (ReportProgress (current s + 1) n # evs)"
      "list_all (\<lambda>e. isDocumentEvent e \<or> isAttachmentEvent e \<or> isFailed e) evs"
      using importEntry_step(1) [of d t n a entry s] by auto
    with emitted_append [OF this(1)] entry_event_kinds show ?thesis
      by (auto simp: list_all_iff)
  qed
  moreover have "\<exists>k m. ReportProgress k m
                \<in> set (trace (snd (import sampleCollaborators
                           (sample_importer [[sample_root], [sample_root]]) [])))
            \<and> m < k"
    using sample_twice_progress by (intro exI [of _ 2] exI [of _ 1]) simp
  moreover note keys_of_distinct(1) [of "idsToFileInfo (snd (scan d this w))"]
    keys_of_distinct(1) [of "pathsToAttachmentInfo (snd (scan d this w))"]
  ultimately show ?thesis by blast
qed

theorem progress_is_reported_per_entry_witness:
  "files (sample_importer [[sample_root], [sample_root]]) \<noteq> []
   \<and> outputFolder (sample_importer [[sample_root], [sample_root]]) = Some ''Notion''
   \<and> filter isProgress (trace (snd (import sampleCollaborators
         (sample_importer [[sample_root], [sample_root]]) [])))
       = map (\<lambda>k. ReportProgress k
                 (length (keys_of (idsToFileInfo (snd (scan sampleCollaborators
                      (sample_importer [[sample_root], [sample_root]]) []))))
                  + length (keys_of (pathsToAttachmentInfo (snd (scan sampleCollaborators
                      (sample_importer [[sample_root], [sample_root]]) []))))))
            [1 ..< length (entriesToProcess sampleCollaborators
                             (files (sample_importer [[sample_root], [sample_root]]))) + 1]
   \<and> filter isProgress (trace (snd (import sampleCollaborators
         (sample_importer [[sample_root], [sample_root]]) [])))
       = [ReportProgress 1 1, ReportProgress 2 1]"
proof -
  have h: "files (sample_importer [[sample_root], [sample_root]]) \<noteq> []
     \<and> outputFolder (sample_importer [[sample_root], [sample_root]]) = Some ''Notion''"
    by (simp add: sample_importer_def)
  note c = progress_is_reported_per_entry
      [where this = "sample_importer [[sample_root], [sample_root]]" and folderPath = "''Notion''"
         and d = sampleCollaborators and w = "[]", THEN conjunct1, THEN mp, OF h]
  have "filter isProgress (trace (snd (import sampleCollaborators
         (sample_importer [[sample_root], [sample_root]]) [])))
       = [ReportProgress 1 1, ReportProgress 2 1]"
    by (simp add: sample_twice_trace)
  with h c show ?thesis by blast
qed

end
